theory Spec2Isabelle
  imports Main
begin

text \<open>
  A shallow embedding of runxml, an in-situ DOM parser for XML written in Go: the tree of
  nodes and attributes with its mutation operations, the traversals, the in-place entity
  decoder and the recursive-descent parsing engine, followed by the properties proved of them.
\<close>

section \<open>Data model\<close>

text \<open>
  The parser works on one byte buffer (\<open>[]byte\<close>), modelled as a \<open>string\<close>: a list of
  8-bit characters. Nodes and attributes live in arena slots and refer to each other through
  pointers; a pointer is an address or \<open>nil\<close> (\<open>None\<close>), and the two arenas are two
  separate address spaces, as the two pointer types of the source are. A byte slice held by a
  node (\<open>Name\<close>, \<open>Value\<close>) is a window \<open>data[lo:hi]\<close> of the parse buffer, or the nil slice:
  it is kept as the pair of its bounds, so that the aliasing between the raw input and the
  decoded output stays visible.
\<close>

type_synonym addr = nat

type_synonym slice = "(nat \<times> nat) option"

datatype NodeType = Document | Element | Data | Cdata | Comment | Declaration | Doctype | Pi

datatype panic =
    NilDereference
  | IndexOutOfRange
  | SliceBoundsOutOfRange
  | ExplicitPanic string

record GenericNode =
  Name :: slice
  Value :: slice
  Parent :: "addr option"
  NodeType :: NodeType
  firstChild :: "addr option"
  lastChild :: "addr option"
  firstAttribute :: "addr option"
  lastAttribute :: "addr option"
  prev :: "addr option"
  "next" :: "addr option"

record AttributeNode =
  aName :: slice
  aValue :: slice
  aParent :: "addr option"
  aprev :: "addr option"
  anext :: "addr option"

text \<open>
  The store: the slots of the node arena and of the attribute arena, and how many slots each
  arena has handed out. \<open>get()\<close> takes its slots from slabs made by \<open>make\<close>, which are
  zeroed, and never hands a slot out twice: the arenas are modelled as bump allocators whose
  \<open>get\<close> returns the next slot, zeroed. (The slab sizes, 100 doubling up to 20000, do not
  show in what \<open>get\<close> returns.)
\<close>

record heap =
  nodes :: "addr \<Rightarrow> GenericNode"
  attrs :: "addr \<Rightarrow> AttributeNode"
  nodeTop :: nat
  attrTop :: nat

definition zeroNode :: GenericNode where
  "zeroNode = \<lparr>Name = None, Value = None, Parent = None, NodeType = Document,
     firstChild = None, lastChild = None, firstAttribute = None, lastAttribute = None,
     prev = None, next = None\<rparr>"

definition zeroAttribute :: AttributeNode where
  "zeroAttribute = \<lparr>aName = None, aValue = None, aParent = None, aprev = None, anext = None\<rparr>"

definition emptyHeap :: heap where
  "emptyHeap = \<lparr>nodes = (\<lambda>_. zeroNode), attrs = (\<lambda>_. zeroAttribute), nodeTop = 0, attrTop = 0\<rparr>"

definition updNode :: "addr \<Rightarrow> (GenericNode \<Rightarrow> GenericNode) \<Rightarrow> heap \<Rightarrow> heap" where
  "updNode p f h = h\<lparr>nodes := (nodes h)(p := f (nodes h p))\<rparr>"

definition updAttr :: "addr \<Rightarrow> (AttributeNode \<Rightarrow> AttributeNode) \<Rightarrow> heap \<Rightarrow> heap" where
  "updAttr p f h = h\<lparr>attrs := (attrs h)(p := f (attrs h p))\<rparr>"

text \<open>\<open>newNode\<close>: \<open>n := na.get(); n.NodeType = nodeType\<close>.\<close>

definition nodeArena_get :: "heap \<Rightarrow> addr \<times> heap" where
  "nodeArena_get h =
     (nodeTop h, h\<lparr>nodes := (nodes h)(nodeTop h := zeroNode), nodeTop := Suc (nodeTop h)\<rparr>)"

definition newNode :: "NodeType \<Rightarrow> heap \<Rightarrow> addr \<times> heap" where
  "newNode t h =
     (case nodeArena_get h of (n, h1) \<Rightarrow> (n, updNode n (\<lambda>x. x\<lparr>NodeType := t\<rparr>) h1))"

definition attributeArena_get :: "heap \<Rightarrow> addr \<times> heap" where
  "attributeArena_get h =
     (attrTop h, h\<lparr>attrs := (attrs h)(attrTop h := zeroAttribute), attrTop := Suc (attrTop h)\<rparr>)"

section \<open>Tree model: the child chain and the attribute chain\<close>

text \<open>\<open>AppendNode\<close> (both revisions take the same branches).\<close>

definition AppendNode :: "addr \<Rightarrow> addr \<Rightarrow> heap \<Rightarrow> panic + heap" where
  "AppendNode g child h =
     (case
        (if firstChild (nodes h g) = None
         then Inr (updNode g (\<lambda>x. x\<lparr>firstChild := Some child\<rparr>) h)
         else (case lastChild (nodes h g) of
                 None \<Rightarrow> Inl NilDereference
               | Some l \<Rightarrow>
                   (let h1 = updNode l (\<lambda>x. x\<lparr>next := Some child\<rparr>) h
                    in Inr (updNode child (\<lambda>x. x\<lparr>prev := lastChild (nodes h1 g)\<rparr>) h1))))
      of Inl e \<Rightarrow> Inl e
       | Inr h2 \<Rightarrow>
           (let h3 = updNode g (\<lambda>x. x\<lparr>lastChild := Some child\<rparr>) h2
            in Inr (updNode child (\<lambda>x. x\<lparr>Parent := Some g\<rparr>) h3)))"

text \<open>\<open>AppendAttribute\<close>, the revision beside \<open>PrependAttribute\<close> and \<open>InsertAttribute\<close>.\<close>

definition AppendAttribute :: "addr \<Rightarrow> addr \<Rightarrow> heap \<Rightarrow> panic + heap" where
  "AppendAttribute g a h =
     (case
        (if firstAttribute (nodes h g) = None
         then Inr (updNode g (\<lambda>x. x\<lparr>firstAttribute := Some a\<rparr>) h)
         else (case lastAttribute (nodes h g) of
                 None \<Rightarrow> Inl NilDereference
               | Some l \<Rightarrow>
                   (let h1 = updAttr l (\<lambda>x. x\<lparr>anext := Some a\<rparr>) h
                    in Inr (updAttr a (\<lambda>x. x\<lparr>aprev := lastAttribute (nodes h1 g)\<rparr>) h1))))
      of Inl e \<Rightarrow> Inl e
       | Inr h2 \<Rightarrow>
           (let h3 = updNode g (\<lambda>x. x\<lparr>lastAttribute := Some a\<rparr>) h2
            in Inr (updAttr a (\<lambda>x. x\<lparr>aParent := Some g\<rparr>) h3)))"

text \<open>\<open>AppendAttribute\<close>, the revision that tests \<open>lastAttribute\<close> (in \<open>runxml.go\<close>).\<close>

definition AppendAttribute_runxml :: "addr \<Rightarrow> addr \<Rightarrow> heap \<Rightarrow> panic + heap" where
  "AppendAttribute_runxml g a h =
     (case
        (case lastAttribute (nodes h g) of
           None \<Rightarrow>
             (let h1 = updNode g (\<lambda>x. x\<lparr>firstAttribute := Some a\<rparr>) h
              in Inr (updNode g (\<lambda>x. x\<lparr>lastAttribute := Some a\<rparr>) h1))
         | Some l \<Rightarrow>
             (let h1 = updAttr a (\<lambda>x. x\<lparr>aprev := Some l\<rparr>) h;
                  h2 = updAttr l (\<lambda>x. x\<lparr>anext := Some a\<rparr>) h1
              in Inr (updNode g (\<lambda>x. x\<lparr>lastAttribute := Some a\<rparr>) h2)))
      of Inl e \<Rightarrow> Inl e
       | Inr h3 \<Rightarrow> Inr (updAttr a (\<lambda>x. x\<lparr>aParent := Some g\<rparr>) h3))"

text \<open>
  \<open>PrependAttribute\<close>. Its last statement is \<open>g.Parent = g\<close>: it writes the parent field of
  the node, not of the attribute.
\<close>

definition PrependAttribute :: "addr \<Rightarrow> addr \<Rightarrow> heap \<Rightarrow> panic + heap" where
  "PrependAttribute g a h =
     (let h2 =
        (case firstAttribute (nodes h g) of
           None \<Rightarrow> updNode g (\<lambda>x. x\<lparr>lastAttribute := Some a\<rparr>) h
         | Some f \<Rightarrow>
             (let h1 = updAttr f (\<lambda>x. x\<lparr>aprev := Some a\<rparr>) h
              in updAttr a (\<lambda>x. x\<lparr>anext := firstAttribute (nodes h1 g)\<rparr>) h1));
          h3 = updNode g (\<lambda>x. x\<lparr>firstAttribute := Some a\<rparr>) h2
      in Inr (updNode g (\<lambda>x. x\<lparr>Parent := Some g\<rparr>) h3))"

text \<open>
  \<open>InsertAttribute\<close>: \<open>where\<close> is a pointer and may be nil; the source compares it with
  \<open>g.firstAttribute\<close> before it reads any of its fields.
\<close>

definition InsertAttribute :: "addr \<Rightarrow> addr option \<Rightarrow> addr \<Rightarrow> heap \<Rightarrow> panic + heap" where
  "InsertAttribute g wh a h =
     (if firstAttribute (nodes h g) = wh then PrependAttribute g a h
      else (case wh of
              None \<Rightarrow> Inl NilDereference
            | Some w \<Rightarrow>
                if aParent (attrs h w) \<noteq> Some g
                then Inl (ExplicitPanic ''attemted to insert attribute at non-exising position'')
                else
                  (let h1 = updAttr a (\<lambda>x. x\<lparr>aprev := aprev (attrs h w)\<rparr>) h;
                       h2 = updAttr a (\<lambda>x. x\<lparr>anext := Some w\<rparr>) h1
                   in (case aprev (attrs h2 w) of
                         None \<Rightarrow> Inl NilDereference
                       | Some p \<Rightarrow>
                           (let h3 = updAttr p (\<lambda>x. x\<lparr>anext := Some a\<rparr>) h2;
                                h4 = updAttr w (\<lambda>x. x\<lparr>aprev := Some a\<rparr>) h3
                            in Inr (updAttr a (\<lambda>x. x\<lparr>aParent := Some g\<rparr>) h4))))))"

section \<open>Traversal primitives\<close>

text \<open>
  Both traversals send node pointers on a channel from one goroutine, and the consumer
  receives them in the order they were sent: the model is the list of the pointers sent.
  A traversal of a cyclic chain never closes the channel: the result is then \<open>None\<close>.
\<close>

text \<open>
  The closure \<open>trav\<close> of \<open>SendChildElements\<close>: send the node, walk its first child if
  there is one, then walk its next sibling if there is one.
\<close>

partial_function (option) trav :: "heap \<Rightarrow> addr \<Rightarrow> addr list option" where
  "trav h g =
     Option.bind (case firstChild (nodes h g) of None \<Rightarrow> Some [] | Some c \<Rightarrow> trav h c) (\<lambda>xs.
     Option.bind (case next (nodes h g) of None \<Rightarrow> Some [] | Some n \<Rightarrow> trav h n) (\<lambda>ys.
       Some (g # xs @ ys)))"

text \<open>\<open>SendChildElements\<close> panics on a nil receiver and otherwise sends what \<open>trav\<close> sends.\<close>

declare trav.simps [code]

definition SendChildElements :: "heap \<Rightarrow> addr option \<Rightarrow> panic + addr list option" where
  "SendChildElements h g =
     (case g of None \<Rightarrow> Inl (ExplicitPanic ''node is nil'') | Some a \<Rightarrow> Inr (trav h a))"

text \<open>\<open>CountChildren\<close> counts what it receives from \<open>g.SendChildElements()\<close>.\<close>

definition CountChildren :: "heap \<Rightarrow> addr option \<Rightarrow> panic + nat option" where
  "CountChildren h g = map_sum id (map_option length) (SendChildElements h g)"

text \<open>
  The loop of \<open>SendCloseChildren\<close>,
  \<open>for n := g.firstChild; ; n = n.next { ret <- n; if n == g.lastChild { break } }\<close>:
  the pointer \<open>n\<close> is sent before it is tested, and stepping to \<open>n.next\<close> from a nil
  \<open>n\<close> is a nil dereference. \<open>sent\<close> is what has been sent so far.
\<close>

partial_function (option) closeLoop ::
  "heap \<Rightarrow> addr \<Rightarrow> addr option \<Rightarrow> addr option list \<Rightarrow> (panic + addr option list) option" where
  "closeLoop h g n sent =
     (let sent' = sent @ [n]
      in if n = lastChild (nodes h g) then Some (Inr sent')
         else (case n of
                 None \<Rightarrow> Some (Inl NilDereference)
               | Some a \<Rightarrow> closeLoop h g (next (nodes h a)) sent'))"

declare closeLoop.simps [code]

text \<open>
  \<open>SendCloseChildren\<close> exists in two revisions. The one beside \<open>PrependNode\<close> closes
  the channel at once when \<open>g.firstChild == nil\<close>; the one in \<open>runxml.go\<close> enters the loop
  directly.
\<close>

definition SendCloseChildren :: "heap \<Rightarrow> addr \<Rightarrow> (panic + addr option list) option" where
  "SendCloseChildren h g =
     (if firstChild (nodes h g) = None then Some (Inr [])
      else closeLoop h g (firstChild (nodes h g)) [])"

definition SendCloseChildren_runxml :: "heap \<Rightarrow> addr \<Rightarrow> (panic + addr option list) option" where
  "SendCloseChildren_runxml h g = closeLoop h g (firstChild (nodes h g)) []"

text \<open>
  The tree a store represents: a node with the list of its children's trees. \<open>chain h p ts\<close>
  says that the sibling chain starting at pointer \<open>p\<close> (following \<open>next\<close>) consists of the
  roots of \<open>ts\<close>, in order, each with its children chain (from \<open>firstChild\<close>) representing
  its subtrees. \<open>preorder\<close> is the textbook recursive pre-order walk.
\<close>

datatype tree = Tree addr "tree list"

fun preorder :: "tree \<Rightarrow> addr list" where
  "preorder (Tree a ts) = a # concat (map preorder ts)"

fun root :: "tree \<Rightarrow> addr" where
  "root (Tree a ts) = a"

inductive chain :: "heap \<Rightarrow> addr option \<Rightarrow> tree list \<Rightarrow> bool" where
  chain_nil: "chain h None []"
| chain_cons: "chain h (firstChild (nodes h a)) cs \<Longrightarrow> chain h (next (nodes h a)) ts
     \<Longrightarrow> chain h (Some a) (Tree a cs # ts)"

text \<open>What \<open>trav\<close> sends for a pointer that is walked only when it is not nil.\<close>

definition seqOf :: "heap \<Rightarrow> addr option \<Rightarrow> addr list option" where
  "seqOf h p = (case p of None \<Rightarrow> Some [] | Some c \<Rightarrow> trav h c)"

text \<open>
  A small document: node 0 (the Document) with the children 1 and 2, and node 3 the only
  child of node 1.
\<close>

definition exampleHeap :: heap where
  "exampleHeap =
     updNode 0 (\<lambda>x. x\<lparr>firstChild := Some 1, lastChild := Some 2\<rparr>)
    (updNode 1 (\<lambda>x. x\<lparr>NodeType := Element, Parent := Some 0, firstChild := Some 3,
                       lastChild := Some 3, next := Some 2\<rparr>)
    (updNode 2 (\<lambda>x. x\<lparr>NodeType := Element, Parent := Some 0, prev := Some 1\<rparr>)
    (updNode 3 (\<lambda>x. x\<lparr>NodeType := Data, Parent := Some 1\<rparr>)
       (emptyHeap\<lparr>nodeTop := 4\<rparr>))))"

section \<open>The scanner\<close>

text \<open>
  The errors the parser returns, one constructor for each message of the source, with the
  values the message is formatted from. \<open>Context\<close> is the wrapping done by
  \<open>contextError\<close>: the error, the bytes before the position, the byte at the position (if the
  position is inside the buffer) and the bytes after it.
\<close>

datatype error =
    EndOfFile
  | UnexpectedEndOfFile
  | UnexpectedEndOfFileAt int
  | UnexpectedEndOfData
  | UnexpectedDataAfterBracket
  | UnrecognizedNode int
  | ExpectedEquals char int
  | ExpectedQuote char int
  | AttributeValueError
  | ExpectedEndQuote char
  | NodeNameError
  | ExpectedGtAfterSlash int
  | UnknownEndType
  | UnexpectedClosingTag string
  | ExpectedGt
  | UnexpectedEndOfDeclaration
  | ExpectedPITarget
  | InvalidDashDashInComment
  | UnableToAppendDataNode
  | ExpectedLt char
  | Context error string "char option" string

text \<open>
  The parser instance. Positions are Go \<open>int\<close>s: they are modelled as unbounded integers
  (they stay within one step of the buffer bounds, far from any overflow), and every index or
  slice expression that Go would panic on is a \<open>panic\<close> result of the model. The two arenas
  of the struct are part of the store.
\<close>

record RunXML =
  ValidateClosingTag :: bool
  data :: string
  position :: int

definition NewDefaultRunXML :: RunXML where
  "NewDefaultRunXML = \<lparr>ValidateClosingTag = True, data = [], position = 0\<rparr>"

text \<open>
  The byte classification tables. Each 256-entry table is the predicate "the entry of this
  byte is 1"; the bytes listed are those whose entry differs from the table's majority.
\<close>

definition lookupNodeName :: "char \<Rightarrow> bool" where
  "lookupNodeName c =
     (c \<notin> set [CHR 0x00, CHR 0x09, CHR 0x0A, CHR 0x0D, CHR 0x20, CHR 0x2F, CHR 0x3E, CHR 0x3F])"

definition lookupWhitespace :: "char \<Rightarrow> bool" where
  "lookupWhitespace c = (c \<in> set [CHR 0x09, CHR 0x0A, CHR 0x0D, CHR 0x20])"

definition lookupAttributeName :: "char \<Rightarrow> bool" where
  "lookupAttributeName c =
     (c \<notin> set [CHR 0x00, CHR 0x09, CHR 0x0A, CHR 0x0D, CHR 0x20, CHR 0x21, CHR 0x2F,
                CHR 0x3C, CHR 0x3D, CHR 0x3E, CHR 0x3F])"

definition lookupAttributeDataSQ :: "char \<Rightarrow> bool" where
  "lookupAttributeDataSQ c = (c \<notin> set [CHR 0x00, CHR 0x27])"

definition lookupAttributeDataSQPure :: "char \<Rightarrow> bool" where
  "lookupAttributeDataSQPure c = (c \<notin> set [CHR 0x00, CHR 0x26, CHR 0x27])"

definition lookupAttributeDataDQ :: "char \<Rightarrow> bool" where
  "lookupAttributeDataDQ c = (c \<notin> set [CHR 0x00, CHR 0x22])"

definition lookupAttributeDataDQPure :: "char \<Rightarrow> bool" where
  "lookupAttributeDataDQPure c = (c \<notin> set [CHR 0x00, CHR 0x22, CHR 0x26])"

definition lookupTextPureNoWS :: "char \<Rightarrow> bool" where
  "lookupTextPureNoWS c = (c \<notin> set [CHR 0x00, CHR 0x26, CHR 0x3C])"

definition lookupText :: "char \<Rightarrow> bool" where
  "lookupText c = (c \<notin> set [CHR 0x00, CHR 0x3C])"

definition len :: "RunXML \<Rightarrow> int" where
  "len r = int (length (data r))"

definition getCurrentByte :: "RunXML \<Rightarrow> panic + char" where
  "getCurrentByte r =
     (if 0 \<le> position r \<and> position r < len r then Inr (data r ! nat (position r))
      else Inl IndexOutOfRange)"

definition getNextByte :: "RunXML \<Rightarrow> panic + char \<times> RunXML" where
  "getNextByte r =
     (let r1 = r\<lparr>position := position r + 1\<rparr>
      in if position r1 > len r1 - 1 then Inr (CHR 0x00, r1)
         else if position r1 < 0 then Inl IndexOutOfRange
         else Inr (data r1 ! nat (position r1), r1))"

definition skipBytes :: "int \<Rightarrow> RunXML \<Rightarrow> error option \<times> RunXML" where
  "skipBytes n r =
     (if len r \<le> position r + n then (Some EndOfFile, r)
      else (None, r\<lparr>position := position r + n\<rparr>))"

text \<open>
  \<open>skip\<close>: \<open>for ; r.position < len(r.data); r.position++ { if table[...] != 1 { return } }\<close>
  and then \<open>r.position--\<close> when the loop ran off the end of the buffer.
\<close>

function skipFrom :: "(char \<Rightarrow> bool) \<Rightarrow> string \<Rightarrow> int \<Rightarrow> panic + int" where
  "skipFrom table d p =
     (if p < int (length d)
      then (if p < 0 then Inl IndexOutOfRange
            else if \<not> table (d ! nat p) then Inr p
            else skipFrom table d (p + 1))
      else Inr (p - 1))"
  by pat_completeness auto
termination
  by (relation "measure (\<lambda>(table, d, p). nat (int (length d) - p))") auto

definition skip :: "(char \<Rightarrow> bool) \<Rightarrow> RunXML \<Rightarrow> panic + RunXML" where
  "skip table r =
     (case skipFrom table (data r) (position r) of
        Inl e \<Rightarrow> Inl e
      | Inr p \<Rightarrow> Inr (r\<lparr>position := p\<rparr>))"

text \<open>
  \<open>bytes.HasPrefix\<close>, and the slice expressions of the source: \<open>r.data[r.position:]\<close>
  (its contents are used at once) and the two-index slices \<open>r.data[lo:hi]\<close> that are stored in
  nodes. Every two-index slice of the source is taken with \<open>hi\<close> inside the buffer; the
  model takes the capacity of the buffer to be its length. \<open>bytesOf\<close> reads a stored slice
  back from a buffer.
\<close>

definition HasPrefix :: "string \<Rightarrow> string \<Rightarrow> bool" where
  "HasPrefix s p = (take (length p) s = p)"

definition sliceToEnd :: "RunXML \<Rightarrow> panic + string" where
  "sliceToEnd r =
     (if 0 \<le> position r \<and> position r \<le> len r then Inr (drop (nat (position r)) (data r))
      else Inl SliceBoundsOutOfRange)"

definition sliceOf :: "RunXML \<Rightarrow> int \<Rightarrow> int \<Rightarrow> panic + slice" where
  "sliceOf r lo hi =
     (if 0 \<le> lo \<and> lo \<le> hi \<and> hi \<le> len r then Inr (Some (nat lo, nat hi))
      else Inl SliceBoundsOutOfRange)"

definition sliceFrom :: "int \<Rightarrow> RunXML \<Rightarrow> panic + slice" where
  "sliceFrom start r = sliceOf r start (position r)"

definition bytesOf :: "string \<Rightarrow> slice \<Rightarrow> string" where
  "bytesOf d s = (case s of None \<Rightarrow> [] | Some (lo, hi) \<Rightarrow> take (hi - lo) (drop lo d))"

text \<open>An indexed store \<open>r.data[i] = v\<close>.\<close>

definition writeAt :: "int \<Rightarrow> char \<Rightarrow> RunXML \<Rightarrow> panic + RunXML" where
  "writeAt i v r =
     (if 0 \<le> i \<and> i < len r then Inr (r\<lparr>data := (data r)[nat i := v]\<rparr>)
      else Inl IndexOutOfRange)"

text \<open>
  \<open>skipAndExpandCharacterRefs\<close>. Besides its result, the model keeps a log of what the two
  cursors did: \<open>Observe trail position\<close> is recorded each time the position or the trail has
  just been assigned, and \<open>Store i trail position\<close> each time a byte is stored at index
  \<open>i\<close> of the buffer. The log is kept also when the call panics.

  \<open>expandEntity\<close> is the \<open>switch\<close> on the byte after \<open>&\<close>. In the case \<open>'a'\<close> the
  source evaluates \<open>r.sliceToEnd()\<close> in the first condition when \<open>skipBytes\<close> succeeded and in
  the \<open>else if\<close> otherwise, both times at the same position: the model evaluates it once.
  The cases \<open>'a'\<close> (for \<open>mp;\<close>) and \<open>'q'\<close> store nothing.
\<close>

datatype event = Observe int int | Store int int int

datatype iter = Continue RunXML int char | ReturnNil RunXML | Panicked panic

definition expandEntity :: "char \<Rightarrow> RunXML \<Rightarrow> int \<Rightarrow> (panic + RunXML \<times> int) \<times> event list" where
  "expandEntity c r trail =
     (if c = CHR ''a'' then
        (case skipBytes 1 r of (err, r1) \<Rightarrow>
           (case sliceToEnd r1 of
              Inl e \<Rightarrow> (Inl e, [Observe trail (position r1)])
            | Inr rest \<Rightarrow>
                if err = None \<and> HasPrefix rest ''mp;'' then
                  (let r2 = r1\<lparr>position := position r1 + 2\<rparr>
                   in (Inr (r2, trail), [Observe trail (position r1), Observe trail (position r2)]))
                else if HasPrefix rest ''pos;'' then
                  (case writeAt trail (CHR 0x5C) r1 of
                     Inl e \<Rightarrow> (Inl e, [Observe trail (position r1)])
                   | Inr r2 \<Rightarrow>
                       (let r3 = r2\<lparr>position := position r2 + 3\<rparr>
                        in (Inr (r3, trail),
                            [Observe trail (position r1), Store trail trail (position r1),
                             Observe trail (position r3)])))
                else (Inr (r1, trail), [Observe trail (position r1)])))
      else if c = CHR ''q'' then
        (case skipBytes 1 r of (err, r1) \<Rightarrow>
           if err \<noteq> None then (Inr (r1, trail), [Observe trail (position r1)])
           else (case sliceToEnd r1 of
                   Inl e \<Rightarrow> (Inl e, [Observe trail (position r1)])
                 | Inr rest \<Rightarrow>
                     if HasPrefix rest ''uot;'' then
                       (let r2 = r1\<lparr>position := position r1 + 3\<rparr>
                        in (Inr (r2, trail),
                            [Observe trail (position r1), Observe trail (position r2)]))
                     else (Inr (r1, trail), [Observe trail (position r1)])))
      else if c = CHR ''g'' then
        (case skipBytes 1 r of (err, r1) \<Rightarrow>
           if err \<noteq> None then (Inr (r1, trail), [Observe trail (position r1)])
           else (case sliceToEnd r1 of
                   Inl e \<Rightarrow> (Inl e, [Observe trail (position r1)])
                 | Inr rest \<Rightarrow>
                     if HasPrefix rest ''t;'' then
                       (case writeAt trail (CHR ''>'') r1 of
                          Inl e \<Rightarrow> (Inl e, [Observe trail (position r1)])
                        | Inr r2 \<Rightarrow>
                            (let r3 = r2\<lparr>position := position r2 + 1\<rparr>
                             in (Inr (r3, trail),
                                 [Observe trail (position r1), Store trail trail (position r1),
                                  Observe trail (position r3)])))
                     else (Inr (r1, trail), [Observe trail (position r1)])))
      else if c = CHR ''l'' then
        (case skipBytes 1 r of (err, r1) \<Rightarrow>
           if err \<noteq> None then (Inr (r1, trail), [Observe trail (position r1)])
           else (case sliceToEnd r1 of
                   Inl e \<Rightarrow> (Inl e, [Observe trail (position r1)])
                 | Inr rest \<Rightarrow>
                     if HasPrefix rest ''t;'' then
                       (case writeAt trail (CHR ''<'') r1 of
                          Inl e \<Rightarrow> (Inl e, [Observe trail (position r1)])
                        | Inr r2 \<Rightarrow>
                            (let r3 = r2\<lparr>position := position r2 + 1\<rparr>
                             in (Inr (r3, trail),
                                 [Observe trail (position r1), Store trail trail (position r1),
                                  Observe trail (position r3)])))
                     else (Inr (r1, trail), [Observe trail (position r1)])))
      else if c = CHR 0x00 then (Inl (ExplicitPanic ''end of file''), [])
      else (Inr (r, trail + 1), [Observe (trail + 1) (position r)]))"

text \<open>
  One iteration of the loop: the entity switch or the copy \<open>r.data[trail] = r.data[r.position]\<close>
  when the trail lags, then \<open>if c = r.getNextByte(); c == 0 { return nil }\<close> and \<open>trail++\<close>.
\<close>

definition expandBody :: "RunXML \<Rightarrow> int \<Rightarrow> char \<Rightarrow> iter \<times> event list" where
  "expandBody r trail c =
     (case
        (if c = CHR ''&'' then
           (case getNextByte r of
              Inl e \<Rightarrow> (Inl e, [])
            | Inr (c1, r1) \<Rightarrow>
                (case expandEntity c1 r1 trail of
                   (Inl e, evs) \<Rightarrow> (Inl e, Observe trail (position r1) # evs)
                 | (Inr (r2, trail2), evs) \<Rightarrow>
                     (Inr (r2, trail2), Observe trail (position r1) # evs)))
         else if trail < position r then
           (case getCurrentByte r of
              Inl e \<Rightarrow> (Inl e, [])
            | Inr v \<Rightarrow>
                (case writeAt trail v r of
                   Inl e \<Rightarrow> (Inl e, [])
                 | Inr r1 \<Rightarrow> (Inr (r1, trail), [Store trail trail (position r)])))
         else (Inr (r, trail), []))
      of (Inl e, evs) \<Rightarrow> (Panicked e, evs)
       | (Inr (r2, trail2), evs) \<Rightarrow>
           (case getNextByte r2 of
              Inl e \<Rightarrow> (Panicked e, evs)
            | Inr (c3, r3) \<Rightarrow>
                if c3 = CHR 0x00 then (ReturnNil r3, evs @ [Observe trail2 (position r3)])
                else (Continue r3 (trail2 + 1) c3,
                      evs @ [Observe trail2 (position r3), Observe (trail2 + 1) (position r3)])))"

lemma expandEntity_progress:
  "expandEntity c r trail = (Inr (r', t'), evs) \<Longrightarrow>
     length (data r') = length (data r) \<and> position r \<le> position r'"
  by (auto simp: expandEntity_def skipBytes_def writeAt_def Let_def
      split: if_splits sum.splits prod.splits)

lemma expandBody_progress:
  "expandBody r trail c = (Continue r' t' c', evs) \<Longrightarrow>
     length (data r') = length (data r) \<and> position r < position r' \<and> position r' < len r'"
  by (auto simp: expandBody_def getNextByte_def getCurrentByte_def writeAt_def Let_def len_def
      split: if_splits sum.splits prod.splits dest!: expandEntity_progress)

text \<open>
  The loop \<open>for c := r.getCurrentByte(); stopPred[c] == 1; { ... }\<close> and the final
  \<open>return r.data[start:trail]\<close>. Each iteration moves the position forward inside the buffer.
\<close>

function expandLoop ::
  "(char \<Rightarrow> bool) \<Rightarrow> int \<Rightarrow> RunXML \<Rightarrow> int \<Rightarrow> char \<Rightarrow> (panic + slice \<times> RunXML) \<times> event list" where
  "expandLoop stopPred start r trail c =
     (if stopPred c then
        (case expandBody r trail c of
           (Panicked e, evs) \<Rightarrow> (Inl e, evs)
         | (ReturnNil r1, evs) \<Rightarrow> (Inr (None, r1), evs)
         | (Continue r1 trail1 c1, evs) \<Rightarrow>
             (case expandLoop stopPred start r1 trail1 c1 of (res, evs1) \<Rightarrow> (res, evs @ evs1)))
      else
        (case sliceOf r start trail of
           Inl e \<Rightarrow> (Inl e, [])
         | Inr s \<Rightarrow> (Inr (s, r), [])))"
  by pat_completeness auto
termination
  apply (relation "measure (\<lambda>(stopPred, start, r, trail, c). nat (len r - position r))")
   apply simp
  apply (auto dest!: expandBody_progress[OF sym] simp: len_def)
  done

declare expandLoop.simps [simp del]

definition skipAndExpandCharacterRefs_log ::
  "(char \<Rightarrow> bool) \<Rightarrow> (char \<Rightarrow> bool) \<Rightarrow> RunXML \<Rightarrow> (panic + slice \<times> RunXML) \<times> event list" where
  "skipAndExpandCharacterRefs_log stopPred stopPredPure r =
     (let start = position r
      in case skip stopPredPure r of
           Inl e \<Rightarrow> (Inl e, [])
         | Inr r1 \<Rightarrow>
             (let trail = position r1
              in case getCurrentByte r1 of
                   Inl e \<Rightarrow> (Inl e, [Observe trail (position r1)])
                 | Inr c \<Rightarrow>
                     (case expandLoop stopPred start r1 trail c of
                        (res, evs) \<Rightarrow> (res, Observe trail (position r1) # evs))))"

definition skipAndExpandCharacterRefs ::
  "(char \<Rightarrow> bool) \<Rightarrow> (char \<Rightarrow> bool) \<Rightarrow> RunXML \<Rightarrow> panic + slice \<times> RunXML" where
  "skipAndExpandCharacterRefs stopPred stopPredPure r =
     fst (skipAndExpandCharacterRefs_log stopPred stopPredPure r)"

text \<open>
  Decoding a text run that starts a buffer, as \<open>parseAndAppendData\<close> calls the decoder:
  the bytes of the slice returned, read from the buffer after the call.
\<close>

definition decodeText :: "string \<Rightarrow> panic + string" where
  "decodeText s =
     map_sum id (\<lambda>(sl, r'). bytesOf (data r') sl)
       (skipAndExpandCharacterRefs lookupText lookupTextPureNoWS
          \<lparr>ValidateClosingTag = True, data = s, position = 0\<rparr>)"

text \<open>The text run of the entity example, followed by the closing tag that ends it.\<close>

definition textRun :: RunXML where
  "textRun = \<lparr>ValidateClosingTag = True,
     data = ''a&amp;b&lt;c&gt;d&quot;e&apos;f</r>'', position = 0\<rparr>"


text \<open>
  What the log must show: the trail never ahead of the position, and every store at the index
  \<open>trail\<close>, strictly behind the position.
\<close>

fun behind :: "event \<Rightarrow> bool" where
  "behind (Observe t p) = (t \<le> p)"
| "behind (Store i t p) = (i = t \<and> t < p)"

section \<open>The parsing engine\<close>

text \<open>
  The scanning loops \<open>skipPastChar\<close>, \<open>skipToChar\<close> and \<open>skipToChars\<close>. Each returns the
  error of the source (or none) and leaves the position where the source leaves it.
\<close>

function skipPastCharFrom :: "char \<Rightarrow> string \<Rightarrow> int \<Rightarrow> panic + error option \<times> int" where
  "skipPastCharFrom b d p =
     (let p1 = p + 1
      in if p1 \<ge> int (length d) - 1 then Inr (Some UnexpectedEndOfData, p1)
         else if p1 < 0 then Inl IndexOutOfRange
         else if d ! nat p1 = b then Inr (None, p1 + 1)
         else skipPastCharFrom b d p1)"
  by pat_completeness auto
termination
  by (relation "measure (\<lambda>(b, d, p). nat (int (length d) - p))") auto

definition skipPastChar :: "char \<Rightarrow> RunXML \<Rightarrow> panic + error option \<times> RunXML" where
  "skipPastChar b r =
     (case skipPastCharFrom b (data r) (position r) of
        Inl e \<Rightarrow> Inl e
      | Inr (err, p) \<Rightarrow> Inr (err, r\<lparr>position := p\<rparr>))"

function skipToCharFrom :: "char \<Rightarrow> string \<Rightarrow> int \<Rightarrow> panic + error option \<times> int" where
  "skipToCharFrom b d p =
     (let p1 = p + 1
      in if p1 \<ge> int (length d) then Inr (Some UnexpectedEndOfData, p1)
         else if p1 < 0 then Inl IndexOutOfRange
         else if d ! nat p1 = b then Inr (None, p1)
         else skipToCharFrom b d p1)"
  by pat_completeness auto
termination
  by (relation "measure (\<lambda>(b, d, p). nat (int (length d) - p))") auto

definition skipToChar :: "char \<Rightarrow> RunXML \<Rightarrow> panic + error option \<times> RunXML" where
  "skipToChar b r =
     (case skipToCharFrom b (data r) (position r) of
        Inl e \<Rightarrow> Inl e
      | Inr (err, p) \<Rightarrow> Inr (err, r\<lparr>position := p\<rparr>))"

function skipToCharsFrom :: "string \<Rightarrow> string \<Rightarrow> int \<Rightarrow> panic + error option \<times> int" where
  "skipToCharsFrom b d p =
     (if p < int (length d)
      then (if p < 0 then Inl SliceBoundsOutOfRange
            else if HasPrefix (drop (nat p) d) b then Inr (None, p)
            else skipToCharsFrom b d (p + 1))
      else Inr (Some UnexpectedEndOfFile, p - 1))"
  by pat_completeness auto
termination
  by (relation "measure (\<lambda>(b, d, p). nat (int (length d) - p))") auto

definition skipToChars :: "string \<Rightarrow> RunXML \<Rightarrow> panic + error option \<times> RunXML" where
  "skipToChars b r =
     (case skipToCharsFrom b (data r) (position r) of
        Inl e \<Rightarrow> Inl e
      | Inr (err, p) \<Rightarrow> Inr (err, r\<lparr>position := p\<rparr>))"

text \<open>
  \<open>contextError\<close> wraps an error with up to 40 bytes of the buffer on each side of the
  position. Its slice expressions can panic like any other.
\<close>

definition contextSize :: int where
  "contextSize = 40"

definition contentOf :: "RunXML \<Rightarrow> int \<Rightarrow> int \<Rightarrow> panic + string" where
  "contentOf r lo hi =
     (case sliceOf r lo hi of Inl e \<Rightarrow> Inl e | Inr s \<Rightarrow> Inr (bytesOf (data r) s))"

definition contextError :: "error \<Rightarrow> RunXML \<Rightarrow> panic + error" where
  "contextError v r =
     (case contentOf r (max (position r - contextSize) 0) (min (position r) (len r)) of
        Inl e \<Rightarrow> Inl e
      | Inr leftcontext \<Rightarrow>
          (case contentOf r (min (position r + 1) (len r)) (min (position r + contextSize) (len r)) of
             Inl e \<Rightarrow> Inl e
           | Inr rightcontext \<Rightarrow>
               if position r > len r - 1 then Inr (Context v leftcontext None [])
               else (case getCurrentByte r of
                       Inl e \<Rightarrow> Inl e
                     | Inr c \<Rightarrow> Inr (Context v leftcontext (Some c) rightcontext))))"

text \<open>
  \<open>skipBOM\<close>. The function \<open>decodeUTF16\<close> is called by the source but is not part of the
  files at hand: it is a parameter of the model (\<open>None\<close> is its error, on which the source
  panics).
\<close>

definition skipBOM :: "(string \<Rightarrow> string option) \<Rightarrow> RunXML \<Rightarrow> panic + RunXML" where
  "skipBOM decodeUTF16 r =
     (if HasPrefix (data r) [CHR 0xEF, CHR 0xBB, CHR 0xBF]
      then Inr (r\<lparr>position := position r + 3\<rparr>)
      else if HasPrefix (data r) [CHR 0xFF, CHR 0xFE]
      then (case decodeUTF16 (data r) of
              None \<Rightarrow> Inl (ExplicitPanic ''decodeUTF16'')
            | Some d \<Rightarrow> Inr (r\<lparr>data := d, position := position r + 3\<rparr>))
      else if HasPrefix (data r) [CHR 0xFE, CHR 0xFF]
      then (case decodeUTF16 (data r) of
              None \<Rightarrow> Inl (ExplicitPanic ''decodeUTF16'')
            | Some d \<Rightarrow> Inr (r\<lparr>data := d, position := position r + 3\<rparr>))
      else Inr r)"

text \<open>
  What a parsing method does: it returns (\<open>Done\<close>, with the value returned and a nil
  error), returns an error (\<open>Failed\<close>; the value returned beside the error is always nil), or
  panics (\<open>Crashed\<close>). The parser state and the store after the call are part of the outcome,
  because one caller (\<open>parseXMLDeclaration\<close>) goes on after an error. The methods that
  recurse or loop without an evident bound take fuel, one unit for each call or iteration,
  and yield \<open>None\<close> when it runs out.
\<close>

datatype 'a outcome = Done 'a RunXML heap | Failed error RunXML heap | Crashed panic

text \<open>
  Sequencing: when a step panics the method panics, otherwise it goes on with the value of
  the step (\<open>orCrash\<close>, and \<open>orCrashF\<close> in the methods that take fuel). \<open>ignoreError\<close> is
  the state in which a caller goes on when it drops the error of a call.
\<close>

fun orCrash :: "panic + 'a \<Rightarrow> ('a \<Rightarrow> 'b outcome) \<Rightarrow> 'b outcome" where
  "orCrash (Inl p) f = Crashed p"
| "orCrash (Inr v) f = f v"

fun orCrashF :: "panic + 'a \<Rightarrow> ('a \<Rightarrow> 'b outcome option) \<Rightarrow> 'b outcome option" where
  "orCrashF (Inl p) f = Some (Crashed p)"
| "orCrashF (Inr v) f = f v"

fun ignoreError :: "'a outcome \<Rightarrow> panic + RunXML \<times> heap" where
  "ignoreError (Crashed p) = Inl p"
| "ignoreError (Failed e r h) = Inr (r, h)"
| "ignoreError (Done v r h) = Inr (r, h)"

text \<open>
  \<open>parseAttributes\<close>. \<open>parseAttribute\<close> is one pass of its loop: the test of the loop
  condition (\<open>Done False\<close> when the current byte cannot start an attribute name) and the loop
  body (\<open>Done True\<close> when the loop goes on).
\<close>

definition parseAttribute :: "addr \<Rightarrow> RunXML \<Rightarrow> heap \<Rightarrow> bool outcome" where
  "parseAttribute element r h =
     orCrash (getCurrentByte r) (\<lambda>c0.
     (if \<not> lookupAttributeName c0 then Done False r h else
     (let start = position r in
     (let r1 = (r\<lparr>position := position r + 1\<rparr>) in
     orCrash (skip lookupAttributeName r1) (\<lambda>r2.
     (case attributeArena_get h of (attrNode, h1) \<Rightarrow>
     orCrash (sliceFrom start r2) (\<lambda>name.
     (let h2 = updAttr attrNode (\<lambda>x. x\<lparr>aName := name\<rparr>) h1 in
     orCrash (AppendAttribute element attrNode h2) (\<lambda>h3.
     orCrash (skip lookupWhitespace r2) (\<lambda>r3.
     orCrash (getCurrentByte r3) (\<lambda>c1.
     (if c1 \<noteq> CHR ''='' then Failed (ExpectedEquals c1 (position r3)) r3 h3 else
     (let r4 = (r3\<lparr>position := position r3 + 1\<rparr>) in
     orCrash (skip lookupWhitespace r4) (\<lambda>r5.
     orCrash (getCurrentByte r5) (\<lambda>q.
     (if q \<noteq> CHR 0x27 \<and> q \<noteq> CHR 0x22 then Failed (ExpectedQuote q (position r5)) r5 h3 else
     (let r6 = (r5\<lparr>position := position r5 + 1\<rparr>) in
     orCrash (if q = CHR 0x27
          then skipAndExpandCharacterRefs lookupAttributeDataSQ lookupAttributeDataSQPure r6
          else skipAndExpandCharacterRefs lookupAttributeDataDQ lookupAttributeDataDQPure r6) (\<lambda>(val, r7).
     (if val = None then Failed AttributeValueError r7 h3 else
     (let h4 = updAttr attrNode (\<lambda>x. x\<lparr>aValue := val\<rparr>) h3 in
     orCrash (getCurrentByte r7) (\<lambda>c2.
     (if c2 \<noteq> q then Failed (ExpectedEndQuote q) r7 h4 else
     (let r8 = (r7\<lparr>position := position r7 + 1\<rparr>) in
     orCrash (skip lookupWhitespace r8) (\<lambda>r9.
     Done True r9 h4))))))))))))))))))))))))"

fun parseAttributes :: "nat \<Rightarrow> addr \<Rightarrow> RunXML \<Rightarrow> heap \<Rightarrow> unit outcome option" where
  "parseAttributes 0 element r h = None"
| "parseAttributes (Suc n) element r h =
     (case parseAttribute element r h of
        Crashed p \<Rightarrow> Some (Crashed p)
      | Failed e r1 h1 \<Rightarrow> Some (Failed e r1 h1)
      | Done again r1 h1 \<Rightarrow>
          if again then parseAttributes n element r1 h1 else Some (Done () r1 h1))"

text \<open>
  \<open>bytes.ToLower\<close> on the three bytes compared with \<open>xml\<close>: only ASCII letters can map to
  \<open>x\<close>, \<open>m\<close>, \<open>l\<close>, so lowering the ASCII capitals decides the comparison.
\<close>

definition toLowerASCII :: "char \<Rightarrow> char" where
  "toLowerASCII c =
     (if (65::nat) \<le> of_char c \<and> of_char c \<le> (90::nat)
      then char_of (of_char c + (32::nat)) else c)"

text \<open>
  \<open>parseXMLDeclaration\<close> ignores the error of \<open>parseAttributes\<close> and goes on from the
  state it left.
\<close>

definition parseXMLDeclaration :: "nat \<Rightarrow> RunXML \<Rightarrow> heap \<Rightarrow> addr option outcome option" where
  "parseXMLDeclaration n r h =
     (case newNode Declaration h of (nd, h1) \<Rightarrow>
     orCrashF (skip lookupWhitespace r) (\<lambda>r1.
     (case parseAttributes n nd r1 h1 of None \<Rightarrow> None | Some res \<Rightarrow>
     orCrashF (ignoreError res) (\<lambda>(r2, h2).
     orCrashF (sliceToEnd r2) (\<lambda>rest.
     if \<not> HasPrefix rest ''?>''
     then Some (Failed UnexpectedEndOfDeclaration (r2\<lparr>position := position r2 + 2\<rparr>) h2)
     else Some (Done (Some nd) (r2\<lparr>position := position r2 + 2\<rparr>) h2))))))"

definition parsePI :: "RunXML \<Rightarrow> heap \<Rightarrow> addr option outcome" where
  "parsePI r h =
     (let start = position r in
     orCrash (skip lookupNodeName r) (\<lambda>r1.
     (if start = position r1 then Failed ExpectedPITarget r1 h else
     (case newNode Pi h of (pin, h1) \<Rightarrow>
     orCrash (sliceFrom start r1) (\<lambda>name.
     (let h2 = updNode pin (\<lambda>x. x\<lparr>Name := name\<rparr>) h1 in
     orCrash (skip lookupWhitespace r1) (\<lambda>r2.
     (let start2 = position r2 in
     orCrash (skipToChars ''?>'' r2) (\<lambda>(err, r3).
     (case err of Some e \<Rightarrow> Failed e r3 h2 | None \<Rightarrow>
     orCrash (sliceFrom start2 r3) (\<lambda>val.
     Done (Some pin) (r3\<lparr>position := position r3 + 2\<rparr>) (updNode pin (\<lambda>x. x\<lparr>Value := val\<rparr>) h2))))))))))))"

definition parseCDATA :: "RunXML \<Rightarrow> heap \<Rightarrow> addr option outcome" where
  "parseCDATA r h =
     (let start = position r in
     orCrash (skipToChars '']]'' r) (\<lambda>(err, r1).
     (case err of Some e \<Rightarrow> Failed e r1 h | None \<Rightarrow>
     (case newNode Cdata h of (cd, h1) \<Rightarrow>
     orCrash (sliceFrom start r1) (\<lambda>val.
     Done (Some cd) r1 (updNode cd (\<lambda>x. x\<lparr>Value := val\<rparr>) h1))))))"

text \<open>
  \<open>parseComment\<close>; \<open>commentEnd\<close> is its loop
  \<open>for !bytes.HasPrefix(r.sliceToEnd(), "--") { if err := r.skipBytes(1); ... }\<close>.
\<close>

function commentEnd :: "RunXML \<Rightarrow> panic + error option \<times> RunXML" where
  "commentEnd r =
     (case sliceToEnd r of
        Inl e \<Rightarrow> Inl e
      | Inr rest \<Rightarrow>
          if HasPrefix rest ''--'' then Inr (None, r)
          else (case skipBytes 1 r of
                  (Some e, r1) \<Rightarrow> Inr (Some UnexpectedEndOfFile, r1)
                | (None, r1) \<Rightarrow> commentEnd r1))"
  by pat_completeness auto
termination
  apply (relation "measure (\<lambda>r. nat (len r - position r))")
   apply simp
  apply (auto simp: skipBytes_def len_def split: if_splits)
  done

declare commentEnd.simps [simp del]

definition parseComment :: "RunXML \<Rightarrow> heap \<Rightarrow> addr option outcome" where
  "parseComment r h =
     (let start = position r in
     orCrash (commentEnd r) (\<lambda>(err, r1).
     (case err of Some e \<Rightarrow> Failed e r1 h | None \<Rightarrow>
     (case skipBytes 2 r1 of (err2, r2) \<Rightarrow>
     (if err2 \<noteq> None then Failed UnexpectedEndOfFile r2 h else
     orCrash (getCurrentByte r2) (\<lambda>c.
     (if c \<noteq> CHR ''>'' then Failed InvalidDashDashInComment r2 h else
     (case newNode Comment h of (comment, h1) \<Rightarrow>
     orCrash (sliceOf r2 start (position r2 - 2)) (\<lambda>val.
     Done (Some comment) (snd (skipBytes 1 r2)) (updNode comment (\<lambda>x. x\<lparr>Value := val\<rparr>) h1))))))))))"

text \<open>
  \<open>parseDocType\<close>; \<open>docTypeBrackets\<close> is the inner loop over a bracketed internal subset
  and \<open>parseDocTypeLoop\<close> the outer loop up to the closing angle bracket.
\<close>

function docTypeBrackets :: "RunXML \<Rightarrow> int \<Rightarrow> bool \<Rightarrow> panic + RunXML" where
  "docTypeBrackets r depth insideElement =
     (if depth > 0 then
        (case getCurrentByte r of
           Inl e \<Rightarrow> Inl e
         | Inr c \<Rightarrow>
             (let depth1 = (if c = CHR ''['' \<and> \<not> insideElement then depth + 1
                            else if c = CHR '']'' \<and> \<not> insideElement then depth - 1
                            else depth);
                  inside1 = (if c = CHR ''>'' then False else insideElement)
              in (case sliceToEnd r of
                    Inl e \<Rightarrow> Inl e
                  | Inr rest \<Rightarrow>
                      (let inside2 = (if HasPrefix rest ''<!'' then True else inside1)
                       in (case getNextByte r of
                             Inl e \<Rightarrow> Inl e
                           | Inr (c1, r1) \<Rightarrow> docTypeBrackets r1 depth1 inside2)))))
      else Inr r)"
  by pat_completeness auto
termination
  apply (relation "measure (\<lambda>(r, depth, insideElement). nat (len r - position r))")
   apply simp
  apply (auto simp: getCurrentByte_def getNextByte_def len_def Let_def split: if_splits)
  done

declare docTypeBrackets.simps [simp del]

fun parseDocTypeLoop :: "nat \<Rightarrow> RunXML \<Rightarrow> heap \<Rightarrow> unit outcome option" where
  "parseDocTypeLoop 0 r h = None"
| "parseDocTypeLoop (Suc n) r h =
     (case getCurrentByte r of
        Inl p \<Rightarrow> Some (Crashed p)
      | Inr c \<Rightarrow>
          if c = CHR ''>'' then Some (Done () r h)
          else if c = CHR ''['' then
            (case docTypeBrackets (snd (skipBytes 1 r)) 1 False of
               Inl p \<Rightarrow> Some (Crashed p)
             | Inr r1 \<Rightarrow> parseDocTypeLoop n r1 h)
          else
            (case skipBytes 1 r of
               (Some e, r1) \<Rightarrow> Some (Failed e r1 h)
             | (None, r1) \<Rightarrow> parseDocTypeLoop n r1 h))"

definition parseDocType :: "nat \<Rightarrow> RunXML \<Rightarrow> heap \<Rightarrow> addr option outcome option" where
  "parseDocType n r h =
     (let start = position r in
     (case parseDocTypeLoop n r h of
        None \<Rightarrow> None
      | Some (Crashed p) \<Rightarrow> Some (Crashed p)
      | Some (Failed e r1 h1) \<Rightarrow> Some (Failed e r1 h1)
      | Some (Done u r1 h1) \<Rightarrow>
     (case newNode Doctype h1 of (dt, h2) \<Rightarrow>
     orCrashF (sliceFrom start r1) (\<lambda>val.
     Some (Done (Some dt) (snd (skipBytes 1 r1)) (updNode dt (\<lambda>x. x\<lparr>Value := val\<rparr>) h2))))))"

definition parseAndAppendData :: "addr \<Rightarrow> RunXML \<Rightarrow> heap \<Rightarrow> unit outcome" where
  "parseAndAppendData parent r h =
     orCrash (skipAndExpandCharacterRefs lookupText lookupTextPureNoWS r) (\<lambda>(val, r1).
     (if val = None then Failed UnableToAppendDataNode r1 h else
     (case newNode Data h of (node, h1) \<Rightarrow>
     (let h2 = updNode node (\<lambda>x. x\<lparr>Value := val\<rparr>) h1 in
     (let h3 = updNode parent (\<lambda>x. x\<lparr>Value := val\<rparr>) h2 in
     orCrash (AppendNode parent node h3) (\<lambda>h4.
     Done () r1 h4))))))"

text \<open>
  \<open>parseNode\<close> is split along its \<open>switch\<close>: \<open>parseNodeQuestion\<close> is the case \<open>'?'\<close>,
  \<open>parseNodeBang\<close> the case \<open>'!'\<close> with its inner switch, and \<open>parseNodeSkip\<close> the two
  statements after the switch, reached from \<open><!-\<close> not followed by a second \<open>-\<close>. In the
  case \<open>'D'\<close> the test reads \<open>r.data[r.position+6]\<close> only when the prefix matched.
\<close>

definition parseNodeQuestion :: "nat \<Rightarrow> RunXML \<Rightarrow> heap \<Rightarrow> addr option outcome option" where
  "parseNodeQuestion n r h =
     (case skipBytes 4 r of (err, r1) \<Rightarrow>
     (if err \<noteq> None then Some (Failed UnexpectedEndOfFile r1 h) else
     orCrashF (contentOf r1 (position r1 - 3) (position r1)) (\<lambda>x.
     orCrashF (if map toLowerASCII x = ''xml''
          then map_sum id lookupWhitespace (getCurrentByte r1) else Inr False) (\<lambda>isDecl.
     (if \<not> isDecl then Some (parsePI (r1\<lparr>position := position r1 - 3\<rparr>) h) else
     orCrashF (getNextByte r1) (\<lambda>(c1, r2).
     parseXMLDeclaration n r2 h))))))"

definition parseNodeSkip :: "RunXML \<Rightarrow> heap \<Rightarrow> addr option outcome" where
  "parseNodeSkip r h =
     orCrash (skipToChar (CHR ''>'') r) (\<lambda>(err, r1).
       (case err of Some e \<Rightarrow> Failed e r1 h | None \<Rightarrow> Done None r1 h))"

definition parseNodeBang :: "nat \<Rightarrow> RunXML \<Rightarrow> heap \<Rightarrow> addr option outcome option" where
  "parseNodeBang n r h =
     orCrashF (getNextByte r) (\<lambda>(c2, r1).
       if c2 = CHR ''-'' then Some (
        orCrash (getNextByte r1) (\<lambda>(c3, r2).
        (if c3 \<noteq> CHR ''-'' then parseNodeSkip r2 h else
        orCrash (getNextByte r2) (\<lambda>(c4, r3).
        parseComment r3 h))))
       else if c2 = CHR ''['' then Some (
        (case skipBytes 1 r1 of (err, r2) \<Rightarrow>
        (case err of Some e \<Rightarrow> Failed e r2 h | None \<Rightarrow>
        orCrash (sliceToEnd r2) (\<lambda>rest.
        (if \<not> HasPrefix rest ''CDATA['' then Failed UnexpectedDataAfterBracket r2 h else
        parseCDATA (snd (skipBytes 6 r2)) h)))))
       else if c2 = CHR ''D'' then
        (case skipBytes 1 r1 of (err, r2) \<Rightarrow>
        (case err of Some e \<Rightarrow> Some (Failed e r2 h) | None \<Rightarrow>
        orCrashF (sliceToEnd r2) (\<lambda>rest.
        orCrashF (if HasPrefix rest ''OCTYPE''
             then map_sum id lookupWhitespace (getCurrentByte (r2\<lparr>position := position r2 + 6\<rparr>)) else Inr False) (\<lambda>isDoctype.
        (if \<not> isDoctype then Some (Failed (UnexpectedEndOfFileAt (position r2)) r2 h) else
        parseDocType n (snd (skipBytes 6 r2)) h)))))
       else if c2 = CHR 0x00 then Some (Failed (UnexpectedEndOfFileAt (position r1)) r1 h)
       else Some (
        orCrash (skipPastChar (CHR ''>'') r1) (\<lambda>(err, r2).
        (case err of Some e \<Rightarrow> Failed e r2 h | None \<Rightarrow>
        Failed (UnrecognizedNode (position r2)) r2 h))))"

text \<open>
  \<open>parseElement\<close> up to the end of the start tag. The boolean returned with the new element
  tells whether the tag was left open, so that the contents follow, or was self-closing.
\<close>

definition elementStart :: "nat \<Rightarrow> RunXML \<Rightarrow> heap \<Rightarrow> (addr \<times> bool) outcome option" where
  "elementStart n r h =
     (case newNode Element h of (currentElement, h1) \<Rightarrow>
     (let start = position r in
     orCrashF (skip lookupNodeName r) (\<lambda>r1.
     (if start = position r1 then Some (Failed NodeNameError r1 h1) else
     orCrashF (sliceOf r1 start (position r1)) (\<lambda>name.
     (let h2 = updNode currentElement (\<lambda>x. x\<lparr>Name := name\<rparr>) h1 in
     orCrashF (skip lookupWhitespace r1) (\<lambda>r2.
     (case parseAttributes n currentElement r2 h2 of
        None \<Rightarrow> None
      | Some (Crashed p) \<Rightarrow> Some (Crashed p)
      | Some (Failed e r3 h3) \<Rightarrow> Some (Failed e r3 h3)
      | Some (Done u r3 h3) \<Rightarrow>
     orCrashF (getCurrentByte r3) (\<lambda>c.
     (if c = CHR ''>'' then Some (Done (currentElement, True) (r3\<lparr>position := position r3 + 1\<rparr>) h3) else
     (if c \<noteq> CHR ''/'' then Some (Failed UnknownEndType r3 h3) else
     orCrashF (getNextByte r3) (\<lambda>(c1, r4).
     (if c1 \<noteq> CHR ''>'' then Some (Failed (ExpectedGtAfterSlash (position r4)) r4 h3) else
     Some (Done (currentElement, False) (r4\<lparr>position := position r4 + 1\<rparr>) h3))))))))))))))"

text \<open>
  One pass of the loop of \<open>parseNodeContents\<close>, up to the point where it returns, parses a
  child node, or has appended a data node. \<open>skipWs\<close> is false when the pass is entered at the
  label \<open>AfterDataNode\<close>, which is behind the whitespace skip.
\<close>

datatype content = Closed | ChildAt | AfterData

definition closingTagEnd :: "RunXML \<Rightarrow> heap \<Rightarrow> content outcome" where
  "closingTagEnd r h =
     orCrash (skip lookupWhitespace r) (\<lambda>r1.
     orCrash (getCurrentByte r1) (\<lambda>c.
     (if c \<noteq> CHR ''>'' then Failed ExpectedGt r1 h else
     Done Closed (r1\<lparr>position := position r1 + 1\<rparr>) h)))"

definition closingTag :: "addr \<Rightarrow> RunXML \<Rightarrow> heap \<Rightarrow> content outcome" where
  "closingTag cn r h =
     (if ValidateClosingTag r then
        (let start = position r in
     orCrash (skip lookupNodeName r) (\<lambda>r1.
     orCrash (contentOf r1 start (position r1)) (\<lambda>closeTag.
     (if closeTag \<noteq> bytesOf (data r1) (Name (nodes h cn)) then Failed (UnexpectedClosingTag closeTag) r1 h else
     closingTagEnd r1 h))))
      else orCrash (skip lookupNodeName r) (\<lambda>r1. closingTagEnd r1 h))"

definition contentStep :: "addr \<Rightarrow> bool \<Rightarrow> RunXML \<Rightarrow> heap \<Rightarrow> content outcome" where
  "contentStep cn skipWs r h =
     orCrash (if skipWs then skip lookupWhitespace r else Inr r) (\<lambda>r1.
     orCrash (getCurrentByte r1) (\<lambda>c.
       if c = CHR ''<'' then
         orCrash (getNextByte r1) (\<lambda>(c1, r2).
           if c1 = CHR ''/'' then closingTag cn (r2\<lparr>position := position r2 + 1\<rparr>) h
           else Done ChildAt r2 h)
       else
         (case parseAndAppendData cn r1 h of
            Crashed p \<Rightarrow> Crashed p
          | Failed e r2 h2 \<Rightarrow> Failed e r2 h2
          | Done u r2 h2 \<Rightarrow> Done AfterData r2 h2)))"

text \<open>
  The three methods that call each other.
\<close>

fun parseNode :: "nat \<Rightarrow> RunXML \<Rightarrow> heap \<Rightarrow> addr option outcome option"
  and parseElement :: "nat \<Rightarrow> RunXML \<Rightarrow> heap \<Rightarrow> addr option outcome option"
  and parseNodeContents :: "nat \<Rightarrow> addr \<Rightarrow> bool \<Rightarrow> RunXML \<Rightarrow> heap \<Rightarrow> unit outcome option"
where
  "parseNode 0 r h = None"
| "parseNode (Suc n) r h =
     (case getCurrentByte r of
        Inl p \<Rightarrow> Some (Crashed p)
      | Inr c \<Rightarrow>
          if c = CHR ''?'' then parseNodeQuestion n r h
          else if c = CHR ''!'' then parseNodeBang n r h
          else parseElement n r h)"
| "parseElement 0 r h = None"
| "parseElement (Suc n) r h =
     (case elementStart n r h of
        None \<Rightarrow> None
      | Some (Crashed p) \<Rightarrow> Some (Crashed p)
      | Some (Failed e r1 h1) \<Rightarrow> Some (Failed e r1 h1)
      | Some (Done (currentElement, opened) r1 h1) \<Rightarrow>
          if opened then
            (case parseNodeContents n currentElement True r1 h1 of
               None \<Rightarrow> None
             | Some (Crashed p) \<Rightarrow> Some (Crashed p)
             | Some (Failed e r2 h2) \<Rightarrow> Some (Failed e r2 h2)
             | Some (Done u r2 h2) \<Rightarrow> Some (Done (Some currentElement) r2 h2))
          else Some (Done (Some currentElement) r1 h1))"
| "parseNodeContents 0 cn skipWs r h = None"
| "parseNodeContents (Suc n) cn skipWs r h =
     (case contentStep cn skipWs r h of
        Crashed p \<Rightarrow> Some (Crashed p)
      | Failed e r1 h1 \<Rightarrow> Some (Failed e r1 h1)
      | Done Closed r1 h1 \<Rightarrow> Some (Done () r1 h1)
      | Done AfterData r1 h1 \<Rightarrow> parseNodeContents n cn False r1 h1
      | Done ChildAt r1 h1 \<Rightarrow>
          (case parseNode n r1 h1 of
             None \<Rightarrow> None
           | Some (Crashed p) \<Rightarrow> Some (Crashed p)
           | Some (Failed e r2 h2) \<Rightarrow> Some (Failed e r2 h2)
           | Some (Done None r2 h2) \<Rightarrow> parseNodeContents n cn True r2 h2
           | Some (Done (Some child) r2 h2) \<Rightarrow>
               (case AppendNode cn child h2 of
                  Inl p \<Rightarrow> Some (Crashed p)
                | Inr h3 \<Rightarrow> parseNodeContents n cn True r2 h3)))"

text \<open>
  \<open>Parse\<close>. \<open>topLevel\<close> is the body of its loop: \<open>Done (Some res)\<close> when \<open>Parse\<close> returns
  \<open>res\<close> (the node and the error), \<open>Done None\<close> when the loop goes on. \<open>AppendNode\<close> on a
  nil node is a nil dereference. The loop uses fuel only when it runs its body.
\<close>

definition topLevel ::
  "nat \<Rightarrow> addr \<Rightarrow> RunXML \<Rightarrow> heap \<Rightarrow> (addr option \<times> error option) option outcome option" where
  "topLevel n doc r h =
     orCrashF (skip lookupWhitespace r) (\<lambda>r1.
       if position r1 = len r1 - 1 then Some (Done (Some (Some doc, None)) r1 h)
       else
         orCrashF (getCurrentByte r1) (\<lambda>c.
           if c = CHR ''<'' then
             (case parseNode n (r1\<lparr>position := position r1 + 1\<rparr>) h of
                None \<Rightarrow> None
              | Some (Crashed p) \<Rightarrow> Some (Crashed p)
              | Some (Failed e r2 h2) \<Rightarrow>
                  orCrashF (contextError e r2) (\<lambda>e'. Some (Done (Some (None, Some e')) r2 h2))
              | Some (Done None r2 h2) \<Rightarrow> Some (Crashed NilDereference)
              | Some (Done (Some node) r2 h2) \<Rightarrow>
                  orCrashF (AppendNode doc node h2) (\<lambda>h3. Some (Done None r2 h3)))
           else
             orCrashF (contextError (ExpectedLt c) r1) (\<lambda>e'.
               Some (Done (Some (Some doc, Some e')) r1 h))))"

fun parseLoop ::
  "nat \<Rightarrow> addr \<Rightarrow> RunXML \<Rightarrow> heap \<Rightarrow> (addr option \<times> error option) outcome option" where
  "parseLoop 0 doc r h =
     (if position r < len r then None else Some (Done (Some doc, None) r h))"
| "parseLoop (Suc n) doc r h =
     (if position r < len r then
        (case topLevel n doc r h of
           None \<Rightarrow> None
         | Some (Crashed p) \<Rightarrow> Some (Crashed p)
         | Some (Failed e r1 h1) \<Rightarrow> Some (Failed e r1 h1)
         | Some (Done (Some res) r1 h1) \<Rightarrow> Some (Done res r1 h1)
         | Some (Done None r1 h1) \<Rightarrow> parseLoop n doc r1 h1)
      else Some (Done (Some doc, None) r h))"

definition Parse ::
  "nat \<Rightarrow> (string \<Rightarrow> string option) \<Rightarrow> RunXML \<Rightarrow> heap \<Rightarrow> string
     \<Rightarrow> (addr option \<times> error option) outcome option" where
  "Parse n decodeUTF16 r h b =
     (let r0 = r\<lparr>position := 0, data := b\<rparr>
      in (case newNode Document h of (doc, h1) \<Rightarrow>
            orCrashF (skipBOM decodeUTF16 r0) (\<lambda>r1. parseLoop n doc r1 h1)))"

text \<open>
  What a call returned, with the parser state and the store it left: \<open>finished\<close> is defined
  when the call returned with a nil error or, for \<open>Parse\<close>, when it returned at all (its
  error is part of the value).
\<close>

fun finished :: "'a outcome option \<Rightarrow> ('a \<times> RunXML \<times> heap) option" where
  "finished (Some (Done v r h)) = Some (v, r, h)"
| "finished (Some (Failed e r h)) = None"
| "finished (Some (Crashed p)) = None"
| "finished None = None"

definition returned :: "'a outcome option \<Rightarrow> 'a option" where
  "returned x = map_option fst (finished x)"

text \<open>
  The document of the repository's tests \<open>TestSimpleXML2\<close> and \<open>TestSendCloseChildren\<close>
  (a Go raw string with a line feed and two tabs between the two \<open>dog\<close> elements).
\<close>

definition dogregister :: string where
  "dogregister =
     ''<dogregister version='' @ [CHR 0x22] @ ''1'' @ [CHR 0x22] @ ''> <dog><name alive=''
     @ [CHR 0x27] @ ''false'' @ [CHR 0x27] @ ''>Fido</name></dog> '' @ [CHR 0x0A, CHR 0x09, CHR 0x09]
     @ ''<dog><name alive='' @ [CHR 0x22] @ ''true'' @ [CHR 0x22]
     @ ''>Spike</name></dog>   </dogregister>''"

section \<open>The attribute chain and its parent back-references\<close>

lemma AppendAttribute_parent:
  "AppendAttribute g a h = Inr h' \<Longrightarrow> aParent (attrs h' a) = Some g"
  by (auto simp: AppendAttribute_def updAttr_def updNode_def Let_def
      split: if_splits option.splits)

lemma AppendAttribute_runxml_parent:
  "AppendAttribute_runxml g a h = Inr h' \<Longrightarrow> aParent (attrs h' a) = Some g"
  by (auto simp: AppendAttribute_runxml_def updAttr_def updNode_def Let_def
      split: if_splits option.splits)

lemma PrependAttribute_attr_parent_unchanged:
  "PrependAttribute g a h = Inr h' \<Longrightarrow> aParent (attrs h' b) = aParent (attrs h b)"
  by (auto simp: PrependAttribute_def updAttr_def updNode_def Let_def
      split: if_splits option.splits)

lemma PrependAttribute_node_parent:
  "PrependAttribute g a h = Inr h' \<Longrightarrow> Parent (nodes h' g) = Some g"
  by (auto simp: PrependAttribute_def updAttr_def updNode_def Let_def
      split: if_splits option.splits)

lemma InsertAttribute_at_head:
  "firstAttribute (nodes h g) = wh \<Longrightarrow> InsertAttribute g wh a h = PrependAttribute g a h"
  by (simp add: InsertAttribute_def)

lemma InsertAttribute_splice_parent:
  "InsertAttribute g wh a h = Inr h' \<Longrightarrow> firstAttribute (nodes h g) \<noteq> wh \<Longrightarrow>
     aParent (attrs h' a) = Some g"
  by (auto simp: InsertAttribute_def updAttr_def updNode_def Let_def
      split: if_splits option.splits)

text \<open>
  C7 (the attribute-chain insertions establish \<open>a.Parent == g\<close>). \<open>AppendAttribute\<close> does
  (lemma \<open>AppendAttribute_parent\<close>), and so does \<open>InsertAttribute\<close> when it splices;
  \<open>PrependAttribute\<close>, which \<open>InsertAttribute\<close> calls at the head of the chain, does not:
  prepending a fresh attribute (slot 0 of the attribute arena) to a fresh node (slot 0 of the
  node arena) succeeds, puts the attribute at the head of the node's chain, leaves the
  attribute's parent nil, and makes the node its own parent.
\<close>

theorem PrependAttribute_parent_not_set:
  "map_sum id (\<lambda>h'. (firstAttribute (nodes h' 0), aParent (attrs h' 0), Parent (nodes h' 0)))
     (PrependAttribute 0 0 emptyHeap) = Inr (Some 0, None, Some 0)"
  by (simp add: PrependAttribute_def emptyHeap_def updNode_def updAttr_def
      zeroNode_def zeroAttribute_def)

section \<open>Properties of the traversals\<close>

lemma seqOf_chain: "chain h p ts \<Longrightarrow> seqOf h p = Some (concat (map preorder ts))"
proof (induction rule: chain.induct)
  case (chain_nil h)
  show ?case by (simp add: seqOf_def)
next
  case (chain_cons h a cs ts)
  then show ?case
    by (subst seqOf_def) (simp add: trav.simps[of h a] seqOf_def)
qed

lemma trav_unfold:
  "trav h g = Option.bind (seqOf h (firstChild (nodes h g))) (\<lambda>xs.
              Option.bind (seqOf h (next (nodes h g))) (\<lambda>ys. Some (g # xs @ ys)))"
  by (subst trav.simps) (simp add: seqOf_def)

lemma chain_inverts:
  "chain h (Some a) ts \<Longrightarrow>
     \<exists>cs us. ts = Tree a cs # us \<and> chain h (firstChild (nodes h a)) cs \<and> chain h (next (nodes h a)) us"
  by (erule chain.cases) auto

lemma chain_None: "chain h None ts \<Longrightarrow> ts = []"
  by (erule chain.cases) auto

lemma chain_functional: "chain h p ts \<Longrightarrow> chain h p us \<Longrightarrow> ts = us"
proof (induction arbitrary: us rule: chain.induct)
  case (chain_nil h)
  then show ?case by (auto dest: chain_None)
next
  case (chain_cons h a cs ts)
  from chain_inverts[OF chain_cons.prems] obtain cs' us' where
    "us = Tree a cs' # us'" "chain h (firstChild (nodes h a)) cs'" "chain h (next (nodes h a)) us'"
    by blast
  with chain_cons.IH show ?case by simp
qed

lemma chain_suffix:
  "chain h p (us @ Tree a cs # vs) \<Longrightarrow> chain h (Some a) (Tree a cs # vs)"
proof (induction us arbitrary: p)
  case Nil
  then show ?case by (cases p) (auto dest: chain_None chain_inverts intro: chain.intros)
next
  case (Cons u us)
  from Cons.prems obtain b where p: "p = Some b" by (cases p) (auto dest: chain_None)
  from chain_inverts[OF Cons.prems[unfolded p]] have "chain h (next (nodes h b)) (us @ Tree a cs # vs)"
    by auto
  then show ?case by (rule Cons.IH)
qed

lemma chain_root_fresh:
  assumes "chain h (Some a) (Tree a cs # ts)"
  shows "a \<notin> root ` set ts"
proof
  assume "a \<in> root ` set ts"
  then obtain t where t: "t \<in> set ts" "root t = a" by auto
  then obtain us vs where split: "ts = us @ t # vs" by (auto simp: in_set_conv_decomp)
  obtain cs' where t': "t = Tree a cs'" using t(2) by (cases t) auto
  from chain_inverts[OF assms] have "chain h (next (nodes h a)) ts" by auto
  then have "chain h (Some a) (Tree a cs' # vs)" unfolding split t' by (rule chain_suffix)
  from chain_functional[OF assms this] have "ts = vs" by simp
  with split show False by simp
qed

lemma closeLoop_chain:
  "chain h p ts \<Longrightarrow> ts \<noteq> [] \<Longrightarrow> lastChild (nodes h g) = Some (root (last ts)) \<Longrightarrow>
     closeLoop h g p sent = Some (Inr (sent @ map (\<lambda>t. Some (root t)) ts))"
proof (induction arbitrary: sent rule: chain.induct)
  case (chain_nil h)
  then show ?case by simp
next
  case (chain_cons h a cs ts)
  show ?case
  proof (cases "ts = []")
    case True
    with chain_cons.prems show ?thesis by (subst closeLoop.simps) simp
  next
    case False
    have fresh: "a \<notin> root ` set ts"
      using chain_root_fresh[OF chain.chain_cons[OF chain_cons.hyps]] .
    have "root (last ts) \<in> root ` set ts" using False by simp
    with fresh have ne: "a \<noteq> root (last ts)" by metis
    have l: "lastChild (nodes h g) = Some (root (last ts))"
      using chain_cons.prems False by simp
    have "closeLoop h g (next (nodes h a)) (sent @ [Some a])
            = Some (Inr ((sent @ [Some a]) @ map (\<lambda>t. Some (root t)) ts))"
      by (rule chain_cons.IH(2)[OF False l])
    with ne l show ?thesis by (subst closeLoop.simps) simp
  qed
qed

text \<open>
  The revision of \<open>SendCloseChildren\<close> that guards the empty case sends exactly the
  immediate children, first to last, when the children chain is well formed.
\<close>

lemma SendCloseChildren_children:
  assumes "chain h (firstChild (nodes h g)) cs"
    and "lastChild (nodes h g) = (if cs = [] then None else Some (root (last cs)))"
  shows "SendCloseChildren h g = Some (Inr (map (\<lambda>t. Some (root t)) cs))"
proof (cases "cs = []")
  case True
  with assms(1) have "firstChild (nodes h g) = None"
    by (cases "firstChild (nodes h g)") (auto dest: chain_inverts)
  with True show ?thesis by (simp add: SendCloseChildren_def)
next
  case False
  with chain_None[of h cs] assms(1) have "firstChild (nodes h g) \<noteq> None"
    by (cases "firstChild (nodes h g)") auto
  moreover have "closeLoop h g (firstChild (nodes h g)) [] = Some (Inr ([] @ map (\<lambda>t. Some (root t)) cs))"
    using assms False by (intro closeLoop_chain) simp_all
  ultimately show ?thesis by (auto simp: SendCloseChildren_def)
qed

text \<open>
  C6 (\<open>SendCloseChildren\<close> yields the immediate children; for a node with no children
  the sequence is empty). The revision in \<open>runxml.go\<close> sends \<open>g.firstChild\<close> before any test:
  for a fresh node, which has no children, it sends one nil pointer and then closes the channel.
\<close>

theorem SendCloseChildren_runxml_no_children:
  "SendCloseChildren_runxml emptyHeap 0 = Some (Inr [None])"
  by (subst SendCloseChildren_runxml_def, subst closeLoop.simps)
     (simp add: emptyHeap_def zeroNode_def)

text \<open>
  C3 (the sequence of \<open>SendChildElements\<close>). For every node \<open>g\<close> the sequence sent is
  \<open>g\<close>, then the sequence of its first child if it has one, then the sequence of its next
  sibling if it has one. When the store below \<open>g\<close> represents a tree \<open>t\<close> and \<open>g\<close> has no
  next sibling (the Document root), the traversal ends and the sequence is the pre-order walk
  of \<open>t\<close>, so its n-th element is the n-th node of that walk.
\<close>

theorem SendChildElements_preorder:
  "SendChildElements h (Some g) =
     Inr (Option.bind (seqOf h (firstChild (nodes h g))) (\<lambda>xs.
          Option.bind (seqOf h (next (nodes h g))) (\<lambda>ys. Some (g # xs @ ys))))
   \<and> (chain h (Some g) [t] \<longrightarrow> SendChildElements h (Some g) = Inr (Some (preorder t)))"
proof
  show "SendChildElements h (Some g) =
     Inr (Option.bind (seqOf h (firstChild (nodes h g))) (\<lambda>xs.
          Option.bind (seqOf h (next (nodes h g))) (\<lambda>ys. Some (g # xs @ ys))))"
    by (simp add: SendChildElements_def trav_unfold[symmetric])
next
  show "chain h (Some g) [t] \<longrightarrow> SendChildElements h (Some g) = Inr (Some (preorder t))"
  proof
    assume c: "chain h (Some g) [t]"
    from seqOf_chain[OF c] show "SendChildElements h (Some g) = Inr (Some (preorder t))"
      by (simp add: SendChildElements_def seqOf_def)
  qed
qed

lemma exampleHeap_fields:
  "firstChild (nodes exampleHeap 0) = Some 1" "next (nodes exampleHeap 0) = None"
  "firstChild (nodes exampleHeap 1) = Some 3" "next (nodes exampleHeap 1) = Some 2"
  "firstChild (nodes exampleHeap 2) = None" "next (nodes exampleHeap 2) = None"
  "firstChild (nodes exampleHeap 3) = None" "next (nodes exampleHeap 3) = None"
  "lastChild (nodes exampleHeap 0) = Some 2"
  by (simp_all add: exampleHeap_def updNode_def emptyHeap_def zeroNode_def)

lemma exampleHeap_chain:
  "chain exampleHeap (Some 0) [Tree 0 [Tree 1 [Tree 3 []], Tree 2 []]]"
proof -
  have c3: "chain exampleHeap (Some 3) [Tree 3 []]"
    by (rule chain_cons; unfold exampleHeap_fields; rule chain_nil)
  have c2: "chain exampleHeap (Some 2) [Tree 2 []]"
    by (rule chain_cons; unfold exampleHeap_fields; rule chain_nil)
  have c1: "chain exampleHeap (Some 1) [Tree 1 [Tree 3 []], Tree 2 []]"
    by (rule chain_cons; unfold exampleHeap_fields; rule c3 c2)
  show ?thesis
    by (rule chain_cons; unfold exampleHeap_fields; rule c1 chain_nil)
qed

theorem SendChildElements_preorder_witness:
  "chain exampleHeap (Some 0) [Tree 0 [Tree 1 [Tree 3 []], Tree 2 []]]
   \<and> SendChildElements exampleHeap (Some 0) = Inr (Some [0, 1, 3, 2])"
proof -
  have c: "chain exampleHeap (Some 0) [Tree 0 [Tree 1 [Tree 3 []], Tree 2 []]]"
    by (rule exampleHeap_chain)
  from SendChildElements_preorder[of exampleHeap 0 "Tree 0 [Tree 1 [Tree 3 []], Tree 2 []]"]
  have "chain exampleHeap (Some 0) [Tree 0 [Tree 1 [Tree 3 []], Tree 2 []]] \<longrightarrow>
        SendChildElements exampleHeap (Some 0)
          = Inr (Some (preorder (Tree 0 [Tree 1 [Tree 3 []], Tree 2 []])))"
    by (rule conjunct2)
  with c show ?thesis by simp
qed


text \<open>
  C5 (\<open>CountChildren\<close> is the number of immediate children, as its doc comment "returns the
  current nodes number of child nodes" says). The code counts what \<open>SendChildElements\<close>
  sends instead: in the small document, node 0 has the two immediate children 1 and 2 (and
  three descendants in all), and \<open>CountChildren\<close> is 4.
\<close>

theorem CountChildren_counterexample:
  "SendCloseChildren exampleHeap 0 = Some (Inr [Some 1, Some 2])
   \<and> CountChildren exampleHeap (Some 0) = Inr (Some 4)
   \<and> CountChildren exampleHeap (Some 0) \<noteq> Inr (Some (length [Some 1, Some (2::nat)]))"
proof -
  have "chain exampleHeap (firstChild (nodes exampleHeap 0)) [Tree 1 [Tree 3 []], Tree 2 []]"
    using chain_inverts[OF exampleHeap_chain] by simp
  then have "SendCloseChildren exampleHeap 0
      = Some (Inr (map (\<lambda>t. Some (root t)) [Tree 1 [Tree 3 []], Tree 2 []]))"
    by (rule SendCloseChildren_children) (simp add: exampleHeap_fields)
  then have direct: "SendCloseChildren exampleHeap 0 = Some (Inr [Some 1, Some 2])" by simp
  from seqOf_chain[OF exampleHeap_chain]
  have count: "CountChildren exampleHeap (Some 0) = Inr (Some 4)"
    by (simp add: CountChildren_def SendChildElements_def seqOf_def)
  from direct count show ?thesis by simp
qed

text \<open>
  What \<open>CountChildren\<close> computes on a store that represents trees: the length of the walk
  of \<open>SendChildElements\<close>, which takes in the node itself, all its descendants, and all its
  following siblings with their descendants.
\<close>

lemma CountChildren_counts_subtree:
  "chain h (Some g) (Tree g cs # ts) \<Longrightarrow>
     CountChildren h (Some g)
       = Inr (Some (1 + length (concat (map preorder cs)) + length (concat (map preorder ts))))"
proof -
  assume c: "chain h (Some g) (Tree g cs # ts)"
  from seqOf_chain[OF c] show ?thesis
    by (simp add: CountChildren_def SendChildElements_def seqOf_def)
qed

lemma CountChildren_counts_subtree_example:
  "chain exampleHeap (Some 1) [Tree 1 [Tree 3 []], Tree 2 []]
   \<and> CountChildren exampleHeap (Some 1) = Inr (Some 3)"
proof -
  have c: "chain exampleHeap (Some 1) [Tree 1 [Tree 3 []], Tree 2 []]"
    using chain_inverts[OF exampleHeap_chain] by (simp add: exampleHeap_fields)
  from CountChildren_counts_subtree[OF c] c show ?thesis by simp
qed
section \<open>Properties of the entity decoder\<close>

lemma expandEntity_behind:
  "expandEntity c r trail = (res, evs) \<Longrightarrow> trail < position r \<Longrightarrow>
     list_all behind evs \<and> (\<forall>r' t'. res = Inr (r', t') \<longrightarrow> t' \<le> position r')"
  by (auto simp: expandEntity_def skipBytes_def writeAt_def Let_def
      split: if_splits sum.splits prod.splits)

lemma expandBody_behind:
  "expandBody r trail c = (it, evs) \<Longrightarrow> trail \<le> position r \<Longrightarrow>
     list_all behind evs \<and> (\<forall>r' t' c'. it = Continue r' t' c' \<longrightarrow> t' \<le> position r')"
  apply (simp add: expandBody_def split: if_splits)
  subgoal
    apply (cases "getNextByte r")
     apply (auto simp: getNextByte_def Let_def split: if_splits)[1]
    apply (auto simp: getNextByte_def Let_def split: if_splits sum.splits prod.splits
        dest!: expandEntity_behind)
    done
  subgoal
    by (auto simp: getNextByte_def getCurrentByte_def writeAt_def Let_def
        split: if_splits sum.splits prod.splits)
  subgoal
    by (auto simp: getNextByte_def Let_def split: if_splits sum.splits prod.splits)
  done

lemma expandLoop_behind:
  "expandLoop stopPred start r trail c = (res, evs) \<Longrightarrow> trail \<le> position r \<Longrightarrow>
     list_all behind evs \<and>
     (\<forall>lo hi r'. res = Inr (Some (lo, hi), r') \<longrightarrow>
        int lo = start \<and> lo \<le> hi \<and> int hi \<le> position r')"
proof (induction stopPred start r trail c arbitrary: res evs rule: expandLoop.induct)
  case (1 stopPred start r trail c)
  show ?case
  proof (cases "stopPred c")
    case False
    with "1.prems" show ?thesis
      by (auto simp: expandLoop.simps[of stopPred start r trail c] sliceOf_def
          split: sum.splits if_splits)
  next
    case True
    obtain it evs0 where body: "expandBody r trail c = (it, evs0)"
      by (cases "expandBody r trail c") auto
    from expandBody_behind[OF body "1.prems"(2)]
    have b0: "list_all behind evs0"
      and t0: "\<And>r' t' c'. it = Continue r' t' c' \<Longrightarrow> t' \<le> position r'"
      by auto
    show ?thesis
    proof (cases it)
      case (Continue r1 trail1 c1)
      obtain res1 evs1 where rec: "expandLoop stopPred start r1 trail1 c1 = (res1, evs1)"
        by (cases "expandLoop stopPred start r1 trail1 c1") auto
      from t0[OF Continue] have "trail1 \<le> position r1" .
      from "1.IH"[OF True body[symmetric] Continue rec this]
      have ih: "list_all behind evs1 \<and>
        (\<forall>lo hi r'. res1 = Inr (Some (lo, hi), r') \<longrightarrow>
           int lo = start \<and> lo \<le> hi \<and> int hi \<le> position r')"
        by simp
      from "1.prems"(1) True body Continue rec
      have "res = res1" "evs = evs0 @ evs1"
        by (simp_all add: expandLoop.simps[of stopPred start r trail c])
      with ih b0 show ?thesis by simp
    next
      case (ReturnNil r1)
      with "1.prems"(1) True body b0 show ?thesis
        by (auto simp: expandLoop.simps[of stopPred start r trail c])
    next
      case (Panicked e)
      with "1.prems"(1) True body b0 show ?thesis
        by (auto simp: expandLoop.simps[of stopPred start r trail c])
    qed
  qed
qed

text \<open>
  C1 (the cursors of \<open>skipAndExpandCharacterRefs\<close>). In every call, with any pair of
  tables and from any parser state, whether it returns or panics: each time a cursor has moved
  the trail is at most the position, every store into the buffer is at index \<open>trail\<close> (and
  strictly behind the position), and a returned slice \<open>data[lo:hi]\<close> starts at the position the
  call started from and is no longer than the region scanned, which runs from there to the
  final position.
\<close>

theorem skipAndExpandCharacterRefs_cursors:
  "skipAndExpandCharacterRefs_log stopPred stopPredPure r = (res, evs) \<Longrightarrow>
     list_all behind evs \<and>
     (\<forall>lo hi r'. res = Inr (Some (lo, hi), r') \<longrightarrow>
        int lo = position r \<and> lo \<le> hi \<and> int hi - int lo \<le> position r' - position r)"
proof -
  assume a: "skipAndExpandCharacterRefs_log stopPred stopPredPure r = (res, evs)"
  show ?thesis
  proof (cases "skip stopPredPure r")
    case (Inl e)
    with a show ?thesis by (auto simp: skipAndExpandCharacterRefs_log_def)
  next
    case (Inr r1)
    show ?thesis
    proof (cases "getCurrentByte r1")
      case (Inl e)
      with a Inr show ?thesis by (auto simp: skipAndExpandCharacterRefs_log_def)
    next
      case c: (Inr c)
      obtain res1 evs1 where
        loop: "expandLoop stopPred (position r) r1 (position r1) c = (res1, evs1)"
        by (cases "expandLoop stopPred (position r) r1 (position r1) c") auto
      from expandLoop_behind[OF loop]
      have "list_all behind evs1 \<and>
        (\<forall>lo hi r'. res1 = Inr (Some (lo, hi), r') \<longrightarrow>
           int lo = position r \<and> lo \<le> hi \<and> int hi \<le> position r')"
        by simp
      moreover from a Inr c loop
      have "res = res1" "evs = Observe (position r1) (position r1) # evs1"
        by (simp_all add: skipAndExpandCharacterRefs_log_def Let_def)
      ultimately show ?thesis by auto
    qed
  qed
qed

lemma textRun_log:
  "skipAndExpandCharacterRefs_log lookupText lookupTextPureNoWS textRun =
  (Inr (Some (0, 11),
     \<lparr>ValidateClosingTag = True,
      data = ''a&b<c>d&e'' @ [CHR 0x5C] @ ''fc&gt;d&quot;e&apos;f</r>'', position = 31\<rparr>),
  [Observe 1 1, Observe 1 2, Observe 1 3, Observe 1 5, Observe 1 6,
   Observe 2 6, Store 2 2 6, Observe 2 7, Observe 3 7, Observe 3 8,
   Observe 3 9, Store 3 3 9, Observe 3 10, Observe 3 11, Observe 4 11,
   Store 4 4 11, Observe 4 12, Observe 5 12, Observe 5 13, Observe 5 14,
   Store 5 5 14, Observe 5 15, Observe 5 16, Observe 6 16, Store 6 6 16,
   Observe 6 17, Observe 7 17, Observe 7 18, Observe 7 19, Observe 7 22,
   Observe 7 23, Observe 8 23, Store 8 8 23, Observe 8 24, Observe 9 24,
   Observe 9 25, Observe 9 26, Store 9 9 26, Observe 9 29, Observe 9 30,
   Observe 10 30, Store 10 10 30, Observe 10 31, Observe 11 31])"
  by code_simp


theorem skipAndExpandCharacterRefs_cursors_witness:
  "list_all behind (snd (skipAndExpandCharacterRefs_log lookupText lookupTextPureNoWS textRun))
   \<and> map_sum id fst (fst (skipAndExpandCharacterRefs_log lookupText lookupTextPureNoWS textRun))
       = Inr (Some (0, 11))
   \<and> int 11 - int 0 \<le> 31 - position textRun"
proof -
  note w = skipAndExpandCharacterRefs_cursors[OF textRun_log]
  have "position textRun = 0" by (simp add: textRun_def)
  with w show ?thesis unfolding textRun_log by simp
qed

text \<open>
  What the order of the cursors is for: the bytes at and after the final position, the part
  of the buffer that has not been read yet, are as they were before the call.
\<close>

lemma expandEntity_frame:
  "expandEntity c r trail = (Inr (r', t'), evs) \<Longrightarrow>
     length (data r') = length (data r) \<and> position r \<le> position r' \<and>
     (\<forall>j. int j \<noteq> trail \<longrightarrow> data r' ! j = data r ! j)"
  by (auto simp: expandEntity_def skipBytes_def writeAt_def Let_def
      split: if_splits sum.splits prod.splits)

lemma expandBody_frame:
  assumes "expandBody r trail c = (it, evs)" and "trail \<le> position r"
    and "it = Continue r' t' c' \<or> it = ReturnNil r'"
  shows "length (data r') = length (data r) \<and> position r < position r' \<and>
     (\<forall>j. position r' \<le> int j \<longrightarrow> data r' ! j = data r ! j)"
proof (cases "c = CHR ''&''")
  case True
  from assms True obtain c1 r1 r2 t2 evs2 where
    n1: "getNextByte r = Inr (c1, r1)" and
    e: "expandEntity c1 r1 trail = (Inr (r2, t2), evs2)" and
    n2: "\<exists>c3. getNextByte r2 = Inr (c3, r')"
    by (auto simp: expandBody_def split: sum.splits prod.splits if_splits)
  from n1 have r1: "data r1 = data r" "position r1 = position r + 1"
    by (auto simp: getNextByte_def Let_def split: if_splits)
  from n2 have r2: "data r' = data r2" "position r' = position r2 + 1"
    by (auto simp: getNextByte_def Let_def split: if_splits)
  from expandEntity_frame[OF e] r1 r2 assms(2) show ?thesis by auto
next
  case False
  with assms show ?thesis
    by (auto simp: expandBody_def getNextByte_def getCurrentByte_def writeAt_def Let_def
        split: sum.splits prod.splits if_splits)
qed

lemma expandLoop_frame:
  "expandLoop stopPred start r trail c = (Inr (s, r'), evs) \<Longrightarrow> trail \<le> position r \<Longrightarrow>
     length (data r') = length (data r) \<and> position r \<le> position r' \<and>
     (\<forall>j. position r' \<le> int j \<longrightarrow> data r' ! j = data r ! j)"
proof (induction stopPred start r trail c arbitrary: evs rule: expandLoop.induct)
  case (1 stopPred start r trail c)
  show ?case
  proof (cases "stopPred c")
    case False
    with "1.prems" show ?thesis
      by (auto simp: expandLoop.simps[of stopPred start r trail c] split: sum.splits)
  next
    case True
    obtain it evs0 where body: "expandBody r trail c = (it, evs0)"
      by (cases "expandBody r trail c") auto
    show ?thesis
    proof (cases it)
      case (Continue r1 trail1 c1)
      obtain res1 evs1 where rec: "expandLoop stopPred start r1 trail1 c1 = (res1, evs1)"
        by (cases "expandLoop stopPred start r1 trail1 c1") auto
      from "1.prems"(1) True body Continue rec have res1: "res1 = Inr (s, r')"
        by (simp add: expandLoop.simps[of stopPred start r trail c])
      from expandBody_behind[OF body "1.prems"(2)] Continue
      have t1: "trail1 \<le> position r1" by simp
      from "1.IH"[OF True body[symmetric] Continue rec[unfolded res1] t1]
      have ih: "length (data r') = length (data r1) \<and> position r1 \<le> position r' \<and>
        (\<forall>j. position r' \<le> int j \<longrightarrow> data r' ! j = data r1 ! j)" .
      from expandBody_frame[OF body "1.prems"(2), of r1 trail1 c1] Continue
      have "length (data r1) = length (data r) \<and> position r < position r1 \<and>
        (\<forall>j. position r1 \<le> int j \<longrightarrow> data r1 ! j = data r ! j)" by simp
      with ih show ?thesis by auto
    next
      case (ReturnNil r1)
      with "1.prems"(1) True body have "r' = r1"
        by (simp add: expandLoop.simps[of stopPred start r trail c])
      with expandBody_frame[OF body "1.prems"(2), of r1] ReturnNil show ?thesis by auto
    next
      case (Panicked e)
      with "1.prems"(1) True body show ?thesis
        by (simp add: expandLoop.simps[of stopPred start r trail c])
    qed
  qed
qed

lemma skipAndExpandCharacterRefs_unread_unchanged:
  assumes "skipAndExpandCharacterRefs stopPred stopPredPure r = Inr (s, r')"
  shows "length (data r') = length (data r) \<and>
     (\<forall>j. position r' \<le> int j \<longrightarrow> data r' ! j = data r ! j)"
proof -
  from assms obtain r1 c evs where
    s: "skip stopPredPure r = Inr r1" and
    l: "expandLoop stopPred (position r) r1 (position r1) c = (Inr (s, r'), evs)"
    by (auto simp: skipAndExpandCharacterRefs_def skipAndExpandCharacterRefs_log_def Let_def
        split: sum.splits prod.splits)
  from s have "data r1 = data r" by (auto simp: skip_def split: sum.splits)
  with expandLoop_frame[OF l] show ?thesis by simp
qed

text \<open>
  The five references, each alone at the start of a text run that ends at \<open><\<close>. For
  \<open>&lt;\<close>, \<open>&gt;\<close> and \<open>&apos;\<close> the decoder stores a byte; for \<open>&amp;\<close> and \<open>&quot;\<close> it
  stores nothing and the result is the byte that the buffer holds at the trail, here the
  \<open>&\<close> of the reference itself. After \<open>&lt;\<close> the trail lags, and what \<open>&amp;\<close> leaves is the
  stale \<open>l\<close>.
\<close>

lemma decodeText_references:
  "decodeText ''&lt;<'' = Inr ''<''"
  "decodeText ''&gt;<'' = Inr ''>''"
  "decodeText ''&apos;<'' = Inr [CHR 0x5C]"
  "decodeText ''&amp;<'' = Inr ''&''"
  "decodeText ''&quot;<'' = Inr ''&''"
  "decodeText ''&lt;&amp;<'' = Inr ''<l''"
  by code_simp+

text \<open>
  C2 (what the decoder makes of each reference, and of the example text). On the example the
  decoder returns \<open>a&b<c>d&e\f\<close>: the reference \<open>&quot;\<close> is recognised and skipped, but no
  quote is stored; the byte left at the trail is a stale \<open>&\<close> of the raw input.
\<close>

theorem skipAndExpandCharacterRefs_example:
  "map_sum id (\<lambda>(s, r'). bytesOf (data r') s)
     (skipAndExpandCharacterRefs lookupText lookupTextPureNoWS textRun)
   = Inr (''a&b<c>d&e'' @ [CHR 0x5C] @ ''f'')"
  by code_simp
section \<open>Properties of the parser on given inputs\<close>

lemmas scan_defs = skip_def getCurrentByte_def getNextByte_def skipBytes_def len_def
  sliceOf_def sliceFrom_def sliceToEnd_def contentOf_def bytesOf_def HasPrefix_def writeAt_def
  lookupNodeName_def lookupWhitespace_def lookupAttributeName_def lookupText_def
  lookupTextPureNoWS_def lookupAttributeDataSQ_def lookupAttributeDataSQPure_def
  lookupAttributeDataDQ_def lookupAttributeDataDQPure_def

lemmas heap_defs = newNode_def nodeArena_get_def attributeArena_get_def updNode_def updAttr_def
  AppendNode_def AppendAttribute_def zeroNode_def zeroAttribute_def

lemmas parse_defs = Parse_def skipBOM_def topLevel_def elementStart_def parseAttribute_def
  contentStep_def closingTag_def closingTagEnd_def parseAndAppendData_def contextError_def
  contextSize_def returned_def

lemmas decode_defs = skipAndExpandCharacterRefs_def skipAndExpandCharacterRefs_log_def
  expandLoop.simps expandBody_def expandEntity_def

lemma fuel1: "n + 1 = Suc n"
  by simp

lemma fuel4: "n + 4 = Suc (Suc (Suc (Suc n)))"
  by simp

lemma fuel8: "n + 8 = Suc (Suc (Suc (Suc (Suc (Suc (Suc (Suc n)))))))"
  by simp

lemma fuel12: "n + 12 = Suc (Suc (Suc (Suc (Suc (Suc (Suc (Suc (Suc (Suc (Suc (Suc n)))))))))))"
  by simp

text \<open>
  The model against the repository's tests. On the document of \<open>TestSimpleXML2\<close> the
  document node has one direct child and seven descendants, and \<open>CountChildren\<close> is 8: one
  revision of the test asserts 8 (under the message "expected 5 children"), the other asserts
  7. \<open>TestSendCloseChildren\<close> expects one direct child of the document and two of its root
  element. On the document of \<open>TestHandelingOfSpaces\<close>, where the test asserts 3,
  \<open>CountChildren\<close> is 4.
\<close>

lemma Parse_dogregister:
  "map_option (\<lambda>(v, r, h'). (v, CountChildren h' (Some 0), SendCloseChildren h' 0,
        SendCloseChildren h' 1))
     (finished (Parse (n + 12) decodeUTF16 NewDefaultRunXML emptyHeap dogregister))
   = Some ((Some 0, None), Inr (Some 8), Some (Inr [Some 1]), Some (Inr [Some 2, Some 5]))"
  unfolding fuel12 dogregister_def
  by (simp add: parse_defs scan_defs heap_defs decode_defs NewDefaultRunXML_def Let_def
      emptyHeap_def CountChildren_def SendChildElements_def SendCloseChildren_def
      trav.simps closeLoop.simps)

lemma Parse_TestHandelingOfSpaces:
  "map_option (\<lambda>(v, r, h'). (v, CountChildren h' (Some 0), SendCloseChildren h' 0))
     (finished (Parse (n + 12) decodeUTF16 NewDefaultRunXML emptyHeap
        ''<root><name> xyz &amp; </name>    </root>''))
   = Some ((Some 0, None), Inr (Some 4), Some (Inr [Some 1]))"
  unfolding fuel12
  by (simp add: parse_defs scan_defs heap_defs decode_defs NewDefaultRunXML_def Let_def
      emptyHeap_def CountChildren_def SendChildElements_def SendCloseChildren_def
      trav.simps closeLoop.simps)

text \<open>
  C10 (\<open>Parse\<close> of an empty buffer). With any fuel, any \<open>decodeUTF16\<close>, any parser instance
  and any state of the arenas, \<open>Parse\<close> of the empty buffer returns a nil error and the
  Document node it has just taken from the arena, which has no children, no attributes, and
  nil name and value.
\<close>

theorem Parse_empty:
  "Parse n decodeUTF16 r h [] =
     Some (Done (Some (nodeTop h), None) (r\<lparr>position := 0, data := []\<rparr>)
             (snd (newNode Document h)))
   \<and> nodes (snd (newNode Document h)) (nodeTop h) =
       \<lparr>Name = None, Value = None, Parent = None, NodeType = Document,
        firstChild = None, lastChild = None, firstAttribute = None, lastAttribute = None,
        prev = None, next = None\<rparr>"
  by (cases n) (simp_all add: parse_defs scan_defs heap_defs)

text \<open>
  C9 (validation of the closing tag name). Each outcome is given whole: what \<open>Parse\<close>
  returns, the parser state it leaves, the number of node slots handed out, and the Document
  and element nodes (the two slots taken from the arena). With \<open>ValidateClosingTag\<close> true, as
  \<open>NewDefaultRunXML\<close> sets it, \<open>Parse\<close> of \<open><a></b>\<close> returns a nil node and the error
  "unexpected closing tag" for the name \<open>b\<close>, with the position left at index 6, behind the
  name that was compared, and the element not appended. With \<open>ValidateClosingTag\<close> false it
  returns the Document and a nil error, the element \<open>a\<close> is the only child of the Document,
  and the position is 7: the closing tag has been consumed to the end of the buffer. With
  \<open>ValidateClosingTag\<close> true the matching \<open><a></a>\<close> is accepted in the same way, so the
  error comes from the comparison of the names. This holds for any fuel of at least 4, any
  \<open>decodeUTF16\<close> and any state of the arenas.
\<close>

theorem Parse_closing_tag_validation:
  "map_option (\<lambda>(v, r, h'). (v, r, nodeTop h', nodes h' (nodeTop h), nodes h' (Suc (nodeTop h))))
     (finished (Parse (n + 4) decodeUTF16 NewDefaultRunXML h ''<a></b>''))
     = Some ((None, Some (Context (UnexpectedClosingTag ''b'') ''<a></b'' (Some CHR ''>'') [])),
             \<lparr>ValidateClosingTag = True, data = ''<a></b>'', position = 6\<rparr>,
             Suc (Suc (nodeTop h)),
             zeroNode,
             zeroNode\<lparr>NodeType := Element, Name := Some (1, 2)\<rparr>)
   \<and> map_option (\<lambda>(v, r, h'). (v, r, nodeTop h', nodes h' (nodeTop h), nodes h' (Suc (nodeTop h))))
     (finished (Parse (n + 4) decodeUTF16 (NewDefaultRunXML\<lparr>ValidateClosingTag := False\<rparr>) h
        ''<a></b>''))
     = Some ((Some (nodeTop h), None),
             \<lparr>ValidateClosingTag = False, data = ''<a></b>'', position = 7\<rparr>,
             Suc (Suc (nodeTop h)),
             zeroNode\<lparr>firstChild := Some (Suc (nodeTop h)), lastChild := Some (Suc (nodeTop h))\<rparr>,
             zeroNode\<lparr>NodeType := Element, Name := Some (1, 2), Parent := Some (nodeTop h)\<rparr>)
   \<and> map_option (\<lambda>(v, r, h'). (v, r, nodeTop h', nodes h' (nodeTop h), nodes h' (Suc (nodeTop h))))
     (finished (Parse (n + 4) decodeUTF16 NewDefaultRunXML h ''<a></a>''))
     = Some ((Some (nodeTop h), None),
             \<lparr>ValidateClosingTag = True, data = ''<a></a>'', position = 7\<rparr>,
             Suc (Suc (nodeTop h)),
             zeroNode\<lparr>firstChild := Some (Suc (nodeTop h)), lastChild := Some (Suc (nodeTop h))\<rparr>,
             zeroNode\<lparr>NodeType := Element, Name := Some (1, 2), Parent := Some (nodeTop h)\<rparr>)"
  unfolding fuel4
  by (simp add: parse_defs scan_defs heap_defs NewDefaultRunXML_def Let_def)

text \<open>
  The other half of C8: a byte other than \<open><\<close> at the start of \<open>x<root></root>\<close> is
  reported, with the byte found.
\<close>

lemma Parse_malformed_start:
  "returned (Parse (n + 1) decodeUTF16 NewDefaultRunXML h ''x<root></root>'')
     = Some (Some (nodeTop h),
             Some (Context (ExpectedLt CHR ''x'') [] (Some CHR ''x'') ''<root></root>''))"
  unfolding fuel1
  by (simp add: parse_defs scan_defs heap_defs NewDefaultRunXML_def Let_def)

text \<open>
  C8 (a top-level byte other than \<open><\<close> is an error). The loop of \<open>Parse\<close> stops with
  "normal end of file" whenever the position, after the whitespace skip, is the last index of
  the buffer, without looking at the byte there: \<open>Parse\<close> of \<open>x\<close> and of \<open><a/>x\<close> return the
  Document and a nil error.
\<close>

theorem Parse_last_byte_not_checked:
  "returned (Parse (n + 1) decodeUTF16 NewDefaultRunXML h ''x'') = Some (Some (nodeTop h), None)
   \<and> returned (Parse (n + 4) decodeUTF16 NewDefaultRunXML h ''<a/>x'')
       = Some (Some (nodeTop h), None)"
  unfolding fuel4 fuel1
  by (simp add: parse_defs scan_defs heap_defs NewDefaultRunXML_def Let_def)

text \<open>More generally, every buffer of one byte parses without error, whatever the byte.\<close>

lemma Parse_one_byte:
  "returned (Parse (n + 1) decodeUTF16 r h [c]) = Some (Some (nodeTop h), None)"
  unfolding fuel1
  by (simp add: parse_defs scan_defs heap_defs Let_def)

text \<open>
  Every data run overwrites the value of its parent: after \<open>parseAndAppendData\<close> the value
  of the parent is the value of the data node just appended as its last child.
\<close>

lemma parseAndAppendData_value:
  assumes "parseAndAppendData parent r h = Done u r' h'"
  shows "lastChild (nodes h' parent) = Some (nodeTop h)
     \<and> NodeType (nodes h' (nodeTop h)) = Data
     \<and> Value (nodes h' parent) = Value (nodes h' (nodeTop h))
     \<and> Value (nodes h' parent) \<noteq> None"
proof (cases "skipAndExpandCharacterRefs lookupText lookupTextPureNoWS r")
  case (Inl p)
  with assms show ?thesis by (simp add: parseAndAppendData_def)
next
  case (Inr res)
  obtain val r1 where res: "res = (val, r1)" by (cases res)
  with assms Inr show ?thesis
    by (auto simp: parseAndAppendData_def heap_defs Let_def
        split: sum.splits if_splits option.splits)
qed

text \<open>
  C4 (the value of an element is the text of its first data run). \<open>parseAndAppendData\<close>
  assigns \<open>parent.Value\<close> at every data run, so the value is the text of the last one. Parsing
  \<open><a>x<b/>y</a>\<close> from fresh arenas returns the Document (node 0) and a nil error; the
  element \<open>a\<close> is node 1, its children are the data node 2 (\<open>x\<close>), the element 3 and the data
  node 4 (\<open>y\<close>), and the value of node 1 is \<open>y\<close>.
\<close>

theorem Parse_value_is_last_data_run:
  "map_option (\<lambda>(v, r, h').
       (v, firstChild (nodes h' 1), bytesOf (data r) (Value (nodes h' 1)),
        map (\<lambda>a. (NodeType (nodes h' a), bytesOf (data r) (Value (nodes h' a)), next (nodes h' a)))
          [2, 3, 4]))
     (finished (Parse (n + 8) decodeUTF16 NewDefaultRunXML emptyHeap ''<a>x<b/>y</a>''))
   = Some ((Some 0, None), Some 2, ''y'',
           [(Data, ''x'', Some 3), (Element, [], Some 4), (Data, ''y'', None)])"
  unfolding fuel8
  by (simp add: parse_defs scan_defs heap_defs decode_defs NewDefaultRunXML_def Let_def
      emptyHeap_def)
end
